theory Spec2Isabelle
  imports Complex_Main "HOL-Library.Word"
begin

section \<open>JavaScript values and the runtime operations the client relies on\<close>

text \<open>
  Everything that reaches the client from the network is the result of \<^verbatim>\<open>response.json()\<close>
  or \<^verbatim>\<open>JSON.parse\<close> and is typed \<^verbatim>\<open>any\<close>: a JavaScript value. Numbers are the rationals
  (every finite double is one); a \<open>char\<close> stands for one code unit of a JavaScript string.
\<close>

datatype jsval =
    JUndefined
  | JNull
  | JBool bool
  | JNumber rat
  | JString string
  | JArray "jsval list"
  | JObject "(string \<times> jsval) list"

text \<open>
  What a \<^verbatim>\<open>catch\<close> clause of the client can receive. \<open>Error m\<close> is an object made by a
  \<^verbatim>\<open>new Error(m)\<close> of the client itself, \<open>TypeError m\<close> is raised by the runtime when the
  client reads a property of \<^verbatim>\<open>null\<close>/\<^verbatim>\<open>undefined\<close> or iterates a non-iterable, and
  \<open>External x\<close> is whatever a collaborator (fetch, the codec, \<^verbatim>\<open>JSON.parse\<close>, the workspace
  store) threw: an \<^verbatim>\<open>Error\<close> instance with a message, or any other value.
\<close>

datatype thrown = ErrorInstance string | NonError jsval

datatype js_error = Error string | TypeError string | External thrown

fun truthy :: "jsval \<Rightarrow> bool" where
  "truthy JUndefined = False"
| "truthy JNull = False"
| "truthy (JBool b) = b"
| "truthy (JNumber n) = (n \<noteq> 0)"
| "truthy (JString s) = (s \<noteq> [])"
| "truthy (JArray xs) = True"
| "truthy (JObject kvs) = True"

fun typeof :: "jsval \<Rightarrow> string" where
  "typeof JUndefined = ''undefined''"
| "typeof JNull = ''object''"
| "typeof (JBool b) = ''boolean''"
| "typeof (JNumber n) = ''number''"
| "typeof (JString s) = ''string''"
| "typeof (JArray xs) = ''object''"
| "typeof (JObject kvs) = ''object''"

text \<open>\<^verbatim>\<open>a || b\<close>\<close>

definition js_or :: "jsval \<Rightarrow> jsval \<Rightarrow> jsval" where
  "js_or a b = (if truthy a then a else b)"

definition nullish :: "jsval \<Rightarrow> bool" where
  "nullish v = (v = JUndefined \<or> v = JNull)"

text \<open>
  \<^verbatim>\<open>v.k\<close> for the property names the client reads. Reading a property of \<^verbatim>\<open>null\<close> or
  \<^verbatim>\<open>undefined\<close> raises a TypeError; an object yields its own member or \<^verbatim>\<open>undefined\<close>;
  arrays and strings have \<^verbatim>\<open>length\<close>. No other inherited or index property is among the
  names the client reads (\<^verbatim>\<open>source\<close>, \<^verbatim>\<open>text\<close>, \<^verbatim>\<open>meta\<close>, \<^verbatim>\<open>header\<close>, \<^verbatim>\<open>error\<close>, \<^verbatim>\<open>id\<close>,
  \<^verbatim>\<open>project_name\<close>, \<^verbatim>\<open>pxt.json\<close>, ...).
\<close>

fun js_get :: "jsval \<Rightarrow> string \<Rightarrow> js_error + jsval" where
  "js_get JUndefined k =
     Inl (TypeError (''Cannot read properties of undefined (reading '' @ [CHR 0x27] @ k @ [CHR 0x27] @ '')''))"
| "js_get JNull k =
     Inl (TypeError (''Cannot read properties of null (reading '' @ [CHR 0x27] @ k @ [CHR 0x27] @ '')''))"
| "js_get (JObject kvs) k = Inr (case map_of kvs k of None \<Rightarrow> JUndefined | Some v \<Rightarrow> v)"
| "js_get (JArray xs) k = Inr (if k = ''length'' then JNumber (of_nat (length xs)) else JUndefined)"
| "js_get (JString s) k = Inr (if k = ''length'' then JNumber (of_nat (length s)) else JUndefined)"
| "js_get v k = Inr JUndefined"

text \<open>\<^verbatim>\<open>v?.k\<close>\<close>

definition js_opt_get :: "jsval \<Rightarrow> string \<Rightarrow> jsval" where
  "js_opt_get v k = (case js_get v k of Inl e \<Rightarrow> JUndefined | Inr x \<Rightarrow> x)"

text \<open>A number of indices in decimal.\<close>

fun decimal :: "nat \<Rightarrow> string" where
  "decimal n = (if n < 10 then [''0123456789'' ! n]
                else decimal (n div 10) @ [''0123456789'' ! (n mod 10)])"

declare decimal.simps [simp del]

text \<open>\<^verbatim>\<open>Object.keys(v)\<close> for a value that is not \<^verbatim>\<open>null\<close> or \<^verbatim>\<open>undefined\<close>: the names of an
  object's members, the indices of an array or a string, nothing otherwise.\<close>

fun object_keys :: "jsval \<Rightarrow> jsval" where
  "object_keys (JObject kvs) = JArray (map (\<lambda>kv. JString (fst kv)) kvs)"
| "object_keys (JArray xs) = JArray (map (\<lambda>i. JString (decimal i)) [0..<length xs])"
| "object_keys (JString s) = JArray (map (\<lambda>i. JString (decimal i)) [0..<length s])"
| "object_keys v = JArray []"

fun join_with :: "string \<Rightarrow> string list \<Rightarrow> string" where
  "join_with sep [] = []"
| "join_with sep [x] = x"
| "join_with sep (x # y # ys) = x @ sep @ join_with sep (y # ys)"

text \<open>The double quote, for the texts that contain it.\<close>

definition dq :: string where
  "dq = [CHR 0x22]"

section \<open>The collaborators\<close>

type_synonym bytes = "8 word list"

record request =
  url :: string
  http_method :: string
  headers :: "(string \<times> string) list"
  body :: "string option"

text \<open>A response: \<^verbatim>\<open>response.ok\<close>, and what \<^verbatim>\<open>await response.json()\<close> gives.\<close>

record response =
  ok :: bool
  json :: "thrown + jsval"

text \<open>\<^verbatim>\<open>pxt.workspace.InstallHeader\<close> as importCloudProject fills it.\<close>

record install_header =
  target :: string
  targetVersion :: jsval
  editor :: jsval
  name :: jsval
  meta :: jsval
  pubId :: jsval
  pubCurrent :: bool

text \<open>
  The code outside this client, taken as parameters: the network, local storage, the Base64
  codec and the byte/string conversions of the host editor, its decompression routine,
  \<^verbatim>\<open>JSON.parse\<close>, the number formatting of the runtime, \<^verbatim>\<open>encodeURIComponent\<close>, the
  workspace store and the editor's constants; the console and the notification sink are
  taken to accept what they are given. \<open>fetch\<close> also takes the number of requests
  made so far, so that the server may answer the same request differently over time; the
  workspace store maps the local headers to the headers after the installation;
  \<open>refreshWorkspace\<close> is \<open>None\<close> when the host page has registered no such function, and
  otherwise the outcome of calling it.
\<close>

record env =
  fetch :: "request \<Rightarrow> nat \<Rightarrow> thrown + response"
  localStorage_getItem :: "string \<Rightarrow> thrown + string option"
  encodeURIComponent :: "string \<Rightarrow> thrown + string"
  numberToString :: "rat \<Rightarrow> string"
  JSON_parse :: "string \<Rightarrow> thrown + jsval"
  encodeBase64 :: "string \<Rightarrow> string"
  decodeBase64 :: "jsval \<Rightarrow> thrown + string"
  uint8ArrayToString :: "bytes \<Rightarrow> string"
  stringToUint8Array :: "string \<Rightarrow> bytes"
  lzmaDecompressAsync :: "bytes \<Rightarrow> thrown + string"
  installAsync :: "install_header \<Rightarrow> jsval \<Rightarrow> install_header list \<Rightarrow> thrown + install_header list"
  appTarget_id :: string
  refreshWorkspace :: "(thrown + unit) option"

text \<open>
  Modelled from the spec: \<^verbatim>\<open>pxt.CONFIG_NAME\<close>, the fixed reserved name under which a file
  map holds the project-configuration file. The constant is declared in the host editor's
  library, outside the files at hand, where it is \<^verbatim>\<open>pxt.json\<close>.
\<close>

definition CONFIG_NAME :: string where
  "CONFIG_NAME = ''pxt.json''"

text \<open>
  Modelled from the spec: \<^verbatim>\<open>pxt.BLOCKS_PROJECT_NAME\<close>, the editor kind an installation
  request falls back to, declared in the same library, where it is \<^verbatim>\<open>blocksprj\<close>.
\<close>

definition BLOCKS_PROJECT_NAME :: string where
  "BLOCKS_PROJECT_NAME = ''blocksprj''"

text \<open>The results of a list of steps, or the first error among them.\<close>

fun collect :: "(js_error + 'a) list \<Rightarrow> js_error + 'a list" where
  "collect [] = Inr []"
| "collect (r # rs) =
     (case r of
        Inl e \<Rightarrow> Inl e
      | Inr v \<Rightarrow> (case collect rs of Inl e \<Rightarrow> Inl e | Inr vs \<Rightarrow> Inr (v # vs)))"

text \<open>
  \<^verbatim>\<open>String(v)\<close>, which is also what a template literal, \<^verbatim>\<open>new Error(v)\<close> and
  \<^verbatim>\<open>JSON.parse(v)\<close> apply to \<open>v\<close>. An object is converted by its \<^verbatim>\<open>toString\<close> method: the
  inherited one gives \<^verbatim>\<open>[object Object]\<close>, but an object with a member of its own under that
  name (which in data is never a function) cannot be converted, and the conversion raises a
  TypeError. An array converts its elements in order and joins them with commas, \<^verbatim>\<open>null\<close>
  and \<^verbatim>\<open>undefined\<close> elements as the empty string.
\<close>

definition cannot_convert :: js_error where
  "cannot_convert = TypeError ''Cannot convert object to primitive value''"

fun js_String :: "env \<Rightarrow> jsval \<Rightarrow> js_error + string" where
  "js_String E JUndefined = Inr ''undefined''"
| "js_String E JNull = Inr ''null''"
| "js_String E (JBool b) = Inr (if b then ''true'' else ''false'')"
| "js_String E (JNumber n) = Inr (numberToString E n)"
| "js_String E (JString s) = Inr s"
| "js_String E (JArray xs) =
     (case collect (map (\<lambda>x. if x = JUndefined \<or> x = JNull then Inr [] else js_String E x) xs) of
        Inl e \<Rightarrow> Inl e
      | Inr ss \<Rightarrow> Inr (join_with '','' ss))"
| "js_String E (JObject kvs) =
     (case map_of kvs ''toString'' of
        None \<Rightarrow> Inr ''[object Object]''
      | Some v \<Rightarrow> Inl cannot_convert)"

text \<open>\<^verbatim>\<open>error instanceof Error ? error.message : String(error)\<close>\<close>

fun error_message :: "env \<Rightarrow> js_error \<Rightarrow> js_error + string" where
  "error_message E (Error m) = Inr m"
| "error_message E (TypeError m) = Inr m"
| "error_message E (External (ErrorInstance m)) = Inr m"
| "error_message E (External (NonError v)) = js_String E v"

text \<open>The caught value as \<^verbatim>\<open>console.error\<close> receives it.\<close>

fun error_value :: "js_error \<Rightarrow> jsval" where
  "error_value (Error m) = JObject [(''message'', JString m)]"
| "error_value (TypeError m) = JObject [(''message'', JString m)]"
| "error_value (External (ErrorInstance m)) = JObject [(''message'', JString m)]"
| "error_value (External (NonError v)) = v"

section \<open>State and effects\<close>

datatype level = LogInfo | LogError

text \<open>
  What a run does to the outside: console output, the notification sink
  (\<^verbatim>\<open>core.infoNotification(lf(fmt, args))\<close>, kept as format and arguments), HTTP requests,
  installation requests to the workspace store, and the optional UI refresh. A console
  line is kept as its text and the values logged with it; where the text is a template
  literal, each interpolated value is written as a placeholder \<^verbatim>\<open>{n}\<close> and listed among the
  values. The pictographs that open the console texts are left out.
\<close>

datatype event =
    Console level string "jsval list"
  | InfoNotification string "jsval list"
  | ErrorNotification string "jsval list"
  | Fetch request
  | Install install_header jsval
  | RefreshWorkspace

record world =
  API_BASE_URL :: string
  fetch_count :: nat
  local_headers :: "install_header list"
  trace :: "event list"

type_synonym 'a io = "world \<Rightarrow> (js_error + 'a) \<times> world"

definition return :: "'a \<Rightarrow> 'a io" where
  "return v = (\<lambda>st. (Inr v, st))"

definition throw :: "js_error \<Rightarrow> 'a io" where
  "throw e = (\<lambda>st. (Inl e, st))"

definition bind :: "'a io \<Rightarrow> ('a \<Rightarrow> 'b io) \<Rightarrow> 'b io" where
  "bind m f = (\<lambda>st. case m st of (Inl e, st') \<Rightarrow> (Inl e, st') | (Inr v, st') \<Rightarrow> f v st')"

text \<open>\<^verbatim>\<open>try { body } catch (error) { handler }\<close>\<close>

definition try_catch :: "'a io \<Rightarrow> (js_error \<Rightarrow> 'a io) \<Rightarrow> 'a io" where
  "try_catch m h = (\<lambda>st. case m st of (Inl e, st') \<Rightarrow> h e st' | (Inr v, st') \<Rightarrow> (Inr v, st'))"

definition emit :: "event \<Rightarrow> unit io" where
  "emit ev = (\<lambda>st. (Inr (), st\<lparr>trace := trace st @ [ev]\<rparr>))"

text \<open>A pure step of the runtime that may raise.\<close>

definition lift :: "js_error + 'a \<Rightarrow> 'a io" where
  "lift r = (\<lambda>st. (r, st))"

text \<open>The conversion of an interpolated value of a template literal. The console lines keep
  the value itself; the conversion is made for its possible failure.\<close>

definition toString :: "env \<Rightarrow> jsval \<Rightarrow> string io" where
  "toString E v = lift (js_String E v)"

text \<open>A call of a collaborator that may throw.\<close>

definition external :: "thrown + 'a \<Rightarrow> 'a io" where
  "external r = (\<lambda>st. (case r of Inl x \<Rightarrow> Inl (External x) | Inr v \<Rightarrow> Inr v, st))"

text \<open>Reading the mutable base URL setting, and \<^verbatim>\<open>workspace.getHeaders(false)\<close>.\<close>

definition read_API_BASE_URL :: "string io" where
  "read_API_BASE_URL = (\<lambda>st. (Inr (API_BASE_URL st), st))"

definition getHeaders :: "install_header list io" where
  "getHeaders = (\<lambda>st. (Inr (local_headers st), st))"

text \<open>\<^verbatim>\<open>await fetch(url, init)\<close>\<close>

definition do_fetch :: "env \<Rightarrow> request \<Rightarrow> response io" where
  "do_fetch E req = (\<lambda>st.
     (case fetch E req (fetch_count st) of Inl x \<Rightarrow> Inl (External x) | Inr r \<Rightarrow> Inr r,
      st\<lparr>fetch_count := Suc (fetch_count st), trace := trace st @ [Fetch req]\<rparr>))"

section \<open>\<^verbatim>\<open>JSON.stringify\<close>\<close>

text \<open>
  The text of a value as \<^verbatim>\<open>JSON.stringify\<close> writes it: a string is quoted with its
  escapes, an \<^verbatim>\<open>undefined\<close> array element is written \<^verbatim>\<open>null\<close>, and a member of an object
  whose value is \<^verbatim>\<open>undefined\<close> is not written at all.
\<close>

definition hex_digit :: "nat \<Rightarrow> char" where
  "hex_digit n = ''0123456789abcdef'' ! (n mod 16)"

definition escape_char :: "char \<Rightarrow> string" where
  "escape_char c =
     (if c = CHR 0x22 then [CHR 0x5C, CHR 0x22]
      else if c = CHR 0x5C then [CHR 0x5C, CHR 0x5C]
      else if c = CHR 0x08 then [CHR 0x5C, CHR ''b'']
      else if c = CHR 0x0C then [CHR 0x5C, CHR ''f'']
      else if c = CHR 0x0A then [CHR 0x5C, CHR ''n'']
      else if c = CHR 0x0D then [CHR 0x5C, CHR ''r'']
      else if c = CHR 0x09 then [CHR 0x5C, CHR ''t'']
      else if (of_char c :: nat) < 32
        then [CHR 0x5C, CHR ''u'', CHR ''0'', CHR ''0'',
              hex_digit ((of_char c :: nat) div 16), hex_digit (of_char c :: nat)]
      else [c])"

definition quoteJSONString :: "string \<Rightarrow> string" where
  "quoteJSONString s = [CHR 0x22] @ concat (map escape_char s) @ [CHR 0x22]"

fun serialize :: "env \<Rightarrow> jsval \<Rightarrow> string" where
  "serialize E JUndefined = ''null''"
| "serialize E JNull = ''null''"
| "serialize E (JBool b) = (if b then ''true'' else ''false'')"
| "serialize E (JNumber n) = numberToString E n"
| "serialize E (JString s) = quoteJSONString s"
| "serialize E (JArray xs) = ''['' @ join_with '','' (map (serialize E) xs) @ '']''"
| "serialize E (JObject kvs) =
     ''{'' @ join_with '',''
        (map (\<lambda>kv. quoteJSONString (fst kv) @ '':'' @ serialize E (snd kv))
           (filter (\<lambda>kv. snd kv \<noteq> JUndefined) kvs)) @ ''}''"

definition JSON_stringify :: "env \<Rightarrow> jsval \<Rightarrow> string option" where
  "JSON_stringify E v = (if v = JUndefined then None else Some (serialize E v))"

text \<open>An optional argument that was omitted is \<^verbatim>\<open>undefined\<close>.\<close>

fun optional :: "string option \<Rightarrow> jsval" where
  "optional None = JUndefined"
| "optional (Some s) = JString s"

section \<open>Transport layer\<close>

record CloudProjectData =
  projectName :: jsval
  projectData :: jsval
  createdAt :: jsval

text \<open>\<^verbatim>\<open>DbProjectRecord\<close> has the three fields of \<^verbatim>\<open>CloudProjectData\<close> and three more
  (\<open>rec_id\<close> is its \<^verbatim>\<open>id\<close>); what getProject puts in them is whatever the response holds.\<close>

record DbProjectRecord = CloudProjectData +
  rec_id :: jsval
  userId :: jsval
  updatedAt :: jsval

definition json_headers :: "(string \<times> string) list" where
  "json_headers = [(''Content-Type'', ''application/json'')]"

text \<open>The block every operation runs on an unsuccessful status:
  \<^verbatim>\<open>const error = await response.json(); throw new Error(error.error || dflt)\<close>.\<close>

definition throw_api_error :: "env \<Rightarrow> response \<Rightarrow> string \<Rightarrow> 'a io" where
  "throw_api_error E resp dflt =
     bind (external (json resp)) (\<lambda>error.
     bind (lift (js_get error ''error'')) (\<lambda>m.
     bind (lift (js_String E (js_or m (JString dflt)))) (\<lambda>message.
     throw (Error message))))"

definition saveProject_request :: "env \<Rightarrow> string \<Rightarrow> string \<Rightarrow> string \<Rightarrow> string \<Rightarrow> request" where
  "saveProject_request E base uid pname pdata =
     \<lparr>url = base @ ''/api/projects'', http_method = ''POST'', headers = json_headers,
      body = JSON_stringify E (JObject [(''userId'', JString uid), (''projectName'', JString pname),
               (''projectData'', JString pdata)])\<rparr>"

definition saveProject :: "env \<Rightarrow> string \<Rightarrow> string \<Rightarrow> string \<Rightarrow> jsval io" where
  "saveProject E uid pname pdata =
     try_catch
       (bind read_API_BASE_URL (\<lambda>base.
        bind (do_fetch E (saveProject_request E base uid pname pdata)) (\<lambda>resp.
          if \<not> ok resp then throw_api_error E resp ''Failed to save project''
          else bind (external (json resp)) (\<lambda>result.
               bind (emit (Console LogInfo ''Project saved to cloud:'' [result])) (\<lambda>_.
               return result)))))
       (\<lambda>error. bind (emit (Console LogError ''Error saving project to cloud:'' [error_value error]))
          (\<lambda>_. throw error))"

text \<open>The requests below take the identifiers as the URL holds them: the project id
  converted to a string, the user id encoded.\<close>

definition getUserProjects_request :: "string \<Rightarrow> string \<Rightarrow> request" where
  "getUserProjects_request base encoded =
     \<lparr>url = base @ ''/api/projects/user/'' @ encoded,
      http_method = ''GET'', headers = json_headers, body = None\<rparr>"

definition getUserProjects :: "env \<Rightarrow> string \<Rightarrow> jsval io" where
  "getUserProjects E uid =
     try_catch
       (bind read_API_BASE_URL (\<lambda>base.
        bind (external (encodeURIComponent E uid)) (\<lambda>encoded.
        bind (do_fetch E (getUserProjects_request base encoded)) (\<lambda>resp.
          if \<not> ok resp then throw_api_error E resp ''Failed to fetch projects''
          else bind (external (json resp)) (\<lambda>projects.
               bind (lift (js_get projects ''length'')) (\<lambda>len.
               bind (toString E len) (\<lambda>_.
               bind (emit (Console LogInfo ''Fetched {0} projects for user {1}'' [len, JString uid])) (\<lambda>_.
               return projects))))))))
       (\<lambda>error. bind (emit (Console LogError ''Error fetching user projects:'' [error_value error]))
          (\<lambda>_. throw error))"

definition getProject_request :: "string \<Rightarrow> string \<Rightarrow> string \<Rightarrow> request" where
  "getProject_request base p encoded =
     \<lparr>url = base @ ''/api/projects/'' @ p @ ''?userId='' @ encoded,
      http_method = ''GET'', headers = json_headers, body = None\<rparr>"

definition getProject :: "env \<Rightarrow> jsval \<Rightarrow> string \<Rightarrow> DbProjectRecord io" where
  "getProject E pid uid =
     try_catch
       (bind read_API_BASE_URL (\<lambda>base.
        bind (toString E pid) (\<lambda>p.
        bind (external (encodeURIComponent E uid)) (\<lambda>encoded.
        bind (do_fetch E (getProject_request base p encoded)) (\<lambda>resp.
          if \<not> ok resp then throw_api_error E resp ''Failed to fetch project''
          else bind (external (json resp)) (\<lambda>project.
               bind (toString E pid) (\<lambda>_.
               bind (lift (js_get project ''project_name'')) (\<lambda>pname.
               bind (emit (Console LogInfo ''Fetched project {0}:'' [pid, pname])) (\<lambda>_.
               \<comment> \<open>\<open>project\<close> is not \<^verbatim>\<open>null\<close> here, so the reads below cannot raise\<close>
               return \<lparr>projectName = pname,
                       projectData = js_opt_get project ''project_data'',
                       createdAt = js_opt_get project ''created_at'',
                       rec_id = js_opt_get project ''id'',
                       userId = js_opt_get project ''user_id'',
                       updatedAt = js_opt_get project ''updated_at''\<rparr>)))))))))
       (\<lambda>error.
          bind (toString E pid) (\<lambda>_.
          bind (emit (Console LogError ''Error fetching project {0}:'' [pid, error_value error])) (\<lambda>_.
          throw error)))"

definition updateProject_request ::
  "env \<Rightarrow> string \<Rightarrow> string \<Rightarrow> string \<Rightarrow> string option \<Rightarrow> string option \<Rightarrow> request" where
  "updateProject_request E base p uid pname pdata =
     \<lparr>url = base @ ''/api/projects/'' @ p, http_method = ''PUT'',
      headers = json_headers,
      body = JSON_stringify E (JObject [(''userId'', JString uid), (''projectName'', optional pname),
               (''projectData'', optional pdata)])\<rparr>"

definition updateProject :: "env \<Rightarrow> jsval \<Rightarrow> string \<Rightarrow> string option \<Rightarrow> string option \<Rightarrow> jsval io" where
  "updateProject E pid uid pname pdata =
     try_catch
       (bind read_API_BASE_URL (\<lambda>base.
        bind (toString E pid) (\<lambda>p.
        bind (do_fetch E (updateProject_request E base p uid pname pdata)) (\<lambda>resp.
          if \<not> ok resp then throw_api_error E resp ''Failed to update project''
          else bind (external (json resp)) (\<lambda>result.
               bind (toString E pid) (\<lambda>_.
               bind (emit (Console LogInfo ''Project {0} updated:'' [pid, result])) (\<lambda>_.
               return result)))))))
       (\<lambda>error.
          bind (toString E pid) (\<lambda>_.
          bind (emit (Console LogError ''Error updating project {0}:'' [pid, error_value error])) (\<lambda>_.
          throw error)))"

definition deleteProject_request :: "string \<Rightarrow> string \<Rightarrow> string \<Rightarrow> request" where
  "deleteProject_request base p encoded =
     \<lparr>url = base @ ''/api/projects/'' @ p @ ''?userId='' @ encoded,
      http_method = ''DELETE'', headers = json_headers, body = None\<rparr>"

definition deleteProject :: "env \<Rightarrow> jsval \<Rightarrow> string \<Rightarrow> jsval io" where
  "deleteProject E pid uid =
     try_catch
       (bind read_API_BASE_URL (\<lambda>base.
        bind (toString E pid) (\<lambda>p.
        bind (external (encodeURIComponent E uid)) (\<lambda>encoded.
        bind (do_fetch E (deleteProject_request base p encoded)) (\<lambda>resp.
          if \<not> ok resp then throw_api_error E resp ''Failed to delete project''
          else bind (external (json resp)) (\<lambda>result.
               bind (toString E pid) (\<lambda>_.
               bind (emit (Console LogInfo ''Project {0} deleted'' [pid])) (\<lambda>_.
               return result))))))))
       (\<lambda>error.
          bind (toString E pid) (\<lambda>_.
          bind (emit (Console LogError ''Error deleting project {0}:'' [pid, error_value error])) (\<lambda>_.
          throw error)))"

text \<open>\<^verbatim>\<open>getCurrentUserId\<close>: the stored user id when there is a non-empty one.\<close>

definition getCurrentUserId :: "env \<Rightarrow> string io" where
  "getCurrentUserId E =
     bind (external (localStorage_getItem E ''ctrlaltcode_user_id'')) (\<lambda>storedUserId.
       case storedUserId of
         Some s \<Rightarrow> if s \<noteq> [] then return s else return ''test-user''
       | None \<Rightarrow> return ''test-user'')"

section \<open>Codec adapter\<close>

definition uint8ArrayToBase64 :: "env \<Rightarrow> bytes \<Rightarrow> string" where
  "uint8ArrayToBase64 E uint8Array = encodeBase64 E (uint8ArrayToString E uint8Array)"

definition base64ToUint8Array :: "env \<Rightarrow> jsval \<Rightarrow> thrown + bytes" where
  "base64ToUint8Array E base64 =
     (case decodeBase64 E base64 of
        Inl x \<Rightarrow> Inl x
      | Inr decoded \<Rightarrow> Inr (stringToUint8Array E decoded))"

section \<open>Project importer\<close>

text \<open>\<^verbatim>\<open>a === b\<close>: equal primitives; two objects are the same only as the same reference,
  which a header of the workspace store and a value parsed from a response never are.\<close>

fun strict_eq :: "jsval \<Rightarrow> jsval \<Rightarrow> bool" where
  "strict_eq (JArray xs) b = False"
| "strict_eq (JObject kvs) b = False"
| "strict_eq a b = (a = b)"

text \<open>Steps 1 to 3 of importCloudProject: Base64 to bytes, decompress, parse.\<close>

definition parsePayload :: "env \<Rightarrow> CloudProjectData \<Rightarrow> thrown + jsval" where
  "parsePayload E cloudData =
     (case base64ToUint8Array E (projectData cloudData) of
        Inl x \<Rightarrow> Inl x
      | Inr uint8Array \<Rightarrow>
          (case lzmaDecompressAsync E uint8Array of
             Inl x \<Rightarrow> Inl x
           | Inr decompressedJson \<Rightarrow> JSON_parse E decompressedJson))"

definition unknown_format :: string where
  "unknown_format = ''Invalid project structure: expected 'source' or 'text' property''"

definition missing_config :: string where
  "missing_config = ''Invalid project structure: missing '' @ [CHR 0x27] @ CONFIG_NAME @ [CHR 0x27] @ '' file''"

text \<open>The two payload shapes and the required configuration file of importCloudProject:
  the file map, the header and the text of the configuration file.\<close>

definition readFormat :: "env \<Rightarrow> jsval \<Rightarrow> (jsval \<times> jsval \<times> jsval) io" where
  "readFormat E pd =
     bind (lift (js_get pd ''source'')) (\<lambda>source.
     bind (if truthy source \<and> typeof source = ''string''
           then bind (lift (js_String E source)) (\<lambda>json_text.
                bind (external (JSON_parse E json_text)) (\<lambda>txt.
                bind (lift (js_get pd ''meta'')) (\<lambda>header.
                return (txt, header))))
           else bind (lift (js_get pd ''text'')) (\<lambda>txt.
                if truthy txt \<and> typeof txt = ''object''
                then bind (lift (js_get pd ''header'')) (\<lambda>header. return (txt, header))
                else bind (emit (Console LogError ''Unknown project format!'' [])) (\<lambda>_.
                     bind (emit (Console LogError ''   Project keys:'' [object_keys pd])) (\<lambda>_.
                     bind (emit (Console LogError ''   Project structure:'' [pd])) (\<lambda>_.
                     throw (Error unknown_format))))))
       (\<lambda>(txt, header).
     bind (lift (js_get txt CONFIG_NAME)) (\<lambda>cfg.
     if \<not> truthy cfg then throw (Error missing_config)
     else return (txt, header, cfg))))"

definition make_installHeader :: "env \<Rightarrow> CloudProjectData \<Rightarrow> jsval \<Rightarrow> jsval \<Rightarrow> install_header" where
  "make_installHeader E cloudData header preferredEditor =
     \<lparr>target = appTarget_id E,
      targetVersion = js_or (js_opt_get (js_opt_get header ''targetVersions'') ''target'')
                            (js_opt_get header ''targetVersion''),
      editor = js_or (js_or preferredEditor (js_opt_get header ''editor'')) (JString BLOCKS_PROJECT_NAME),
      name = projectName cloudData,
      meta = js_or (js_opt_get header ''meta'') (JObject []),
      pubId = js_or (js_opt_get header ''pubId'') (JString []),
      pubCurrent = False\<rparr>"

text \<open>\<^verbatim>\<open>await workspace.installAsync(installHeader, text)\<close>\<close>

definition do_install :: "env \<Rightarrow> install_header \<Rightarrow> jsval \<Rightarrow> unit io" where
  "do_install E h txt = (\<lambda>st.
     case installAsync E h txt (local_headers st) of
       Inl x \<Rightarrow> (Inl (External x), st\<lparr>trace := trace st @ [Install h txt]\<rparr>)
     | Inr hs \<Rightarrow> (Inr (), st\<lparr>local_headers := hs, trace := trace st @ [Install h txt]\<rparr>))"

text \<open>Steps 4 and 5 of importCloudProject: the collision check and the installation.\<close>

definition installProject :: "env \<Rightarrow> CloudProjectData \<Rightarrow> jsval \<Rightarrow> jsval \<Rightarrow> jsval \<Rightarrow> bool io" where
  "installProject E cloudData txt header cfg =
     bind getHeaders (\<lambda>existingHeaders.
     case find (\<lambda>h. strict_eq (name h) (projectName cloudData)) existingHeaders of
       Some existingProject \<Rightarrow>
         bind (toString E (projectName cloudData)) (\<lambda>_.
         bind (emit (Console LogInfo (''Project '' @ dq @ ''{0}'' @ dq @ '' already exists locally'') [projectName cloudData])) (\<lambda>_.
         bind (emit (Console LogInfo ''   Local files trump cloud files - skipping import'' [])) (\<lambda>_.
         return False)))
     | None \<Rightarrow>
         bind (lift (js_String E cfg)) (\<lambda>config_text.
         bind (external (JSON_parse E config_text)) (\<lambda>config.
         bind (lift (js_get config ''preferredEditor'')) (\<lambda>preferredEditor.
         bind (do_install E (make_installHeader E cloudData header preferredEditor) txt) (\<lambda>_.
         bind (toString E (projectName cloudData)) (\<lambda>_.
         bind (emit (Console LogInfo ''Successfully imported project: {0}'' [projectName cloudData])) (\<lambda>_.
         bind (case refreshWorkspace E of
                 None \<Rightarrow> return ()
               | Some r \<Rightarrow> bind (emit RefreshWorkspace) (\<lambda>_. external r)) (\<lambda>_.
         return True))))))))"

text \<open>The body of the \<^verbatim>\<open>try\<close> of importCloudProject.\<close>

definition import_body :: "env \<Rightarrow> CloudProjectData \<Rightarrow> bool io" where
  "import_body E cloudData =
     bind (external (parsePayload E cloudData)) (\<lambda>pd.
     bind (readFormat E pd) (\<lambda>(txt, header, cfg).
     installProject E cloudData txt header cfg))"

text \<open>What the \<^verbatim>\<open>catch\<close> of importCloudProject writes for an error and its message.\<close>

definition import_failed :: "CloudProjectData \<Rightarrow> js_error \<Rightarrow> string \<Rightarrow> event list" where
  "import_failed cloudData error errorMsg =
     [Console LogError (''Failed to import project '' @ dq @ ''{0}'' @ dq @ '':'')
        [projectName cloudData, error_value error],
      ErrorNotification ''Failed to import '{0}': {1}'' [projectName cloudData, JString errorMsg]]"

definition importCloudProject :: "env \<Rightarrow> CloudProjectData \<Rightarrow> bool io" where
  "importCloudProject E cloudData =
     bind (toString E (projectName cloudData)) (\<lambda>_.
     bind (emit (Console LogInfo ''Importing project: {0}'' [projectName cloudData])) (\<lambda>_.
     try_catch (import_body E cloudData)
       (\<lambda>error.
          bind (lift (error_message E error)) (\<lambda>errorMsg.
          bind (toString E (projectName cloudData)) (\<lambda>_.
          bind (emit (Console LogError (''Failed to import project '' @ dq @ ''{0}'' @ dq @ '':'')
                  [projectName cloudData, error_value error])) (\<lambda>_.
          bind (emit (ErrorNotification ''Failed to import '{0}': {1}''
                  [projectName cloudData, JString errorMsg])) (\<lambda>_.
          throw error)))))))"

section \<open>Sync orchestrator\<close>

text \<open>\<^verbatim>\<open>for (const projectInfo of cloudProjects)\<close>: what the loop iterates over. An array
  yields its elements and a string its characters; nothing else that \<^verbatim>\<open>response.json()\<close>
  can give is iterable.\<close>

fun js_iterate :: "jsval \<Rightarrow> js_error + jsval list" where
  "js_iterate (JArray xs) = Inr xs"
| "js_iterate (JString s) = Inr (map (\<lambda>c. JString [c]) s)"
| "js_iterate v = Inl (TypeError ''cloudProjects is not iterable'')"

text \<open>The body of the inner \<^verbatim>\<open>try\<close>, up to the result of the import.\<close>

definition sync_item :: "env \<Rightarrow> string \<Rightarrow> jsval \<Rightarrow> bool io" where
  "sync_item E uid projectInfo =
     bind (lift (js_get projectInfo ''id'')) (\<lambda>pid.
     bind (getProject E pid uid) (\<lambda>fullProject.
     importCloudProject E
       \<lparr>projectName = projectName fullProject,
        projectData = projectData fullProject,
        createdAt = createdAt fullProject\<rparr>))"

text \<open>One iteration of the loop, with both counters.\<close>

definition sync_step :: "env \<Rightarrow> string \<Rightarrow> jsval \<Rightarrow> nat \<Rightarrow> nat \<Rightarrow> (nat \<times> nat) io" where
  "sync_step E uid projectInfo importedCount skippedCount =
     try_catch
       (bind (sync_item E uid projectInfo) (\<lambda>wasImported.
          if wasImported then return (importedCount + 1, skippedCount)
          else return (importedCount, skippedCount + 1)))
       (\<lambda>error.
          bind (lift (js_get projectInfo ''project_name'')) (\<lambda>pname.
          bind (toString E pname) (\<lambda>_.
          bind (emit (Console LogError ''Failed to import project {0}:'' [pname, error_value error])) (\<lambda>_.
          return (importedCount, skippedCount)))))"

fun sync_loop :: "env \<Rightarrow> string \<Rightarrow> jsval list \<Rightarrow> nat \<Rightarrow> nat \<Rightarrow> (nat \<times> nat) io" where
  "sync_loop E uid [] importedCount skippedCount st = (Inr (importedCount, skippedCount), st)"
| "sync_loop E uid (projectInfo # rest) importedCount skippedCount st =
     (case sync_step E uid projectInfo importedCount skippedCount st of
        (Inl e, st') \<Rightarrow> (Inl e, st')
      | (Inr (i, s), st') \<Rightarrow> sync_loop E uid rest i s st')"

definition num :: "nat \<Rightarrow> jsval" where
  "num n = JNumber (of_nat n)"

text \<open>What follows the loop: the summary line and the notification.\<close>

definition sync_report :: "nat \<Rightarrow> nat \<Rightarrow> unit io" where
  "sync_report importedCount skippedCount =
     bind (emit (Console LogInfo ''Cloud sync complete! Imported: {0}, Skipped: {1}''
             [num importedCount, num skippedCount])) (\<lambda>_.
     if importedCount > 0
       then emit (InfoNotification ''Synced {0} project(s) from cloud'' [num importedCount])
     else if skippedCount > 0
       then emit (InfoNotification ''All {0} cloud project(s) already exist locally'' [num skippedCount])
     else return ())"

text \<open>The body of the outer \<^verbatim>\<open>try\<close> once the list has arrived.\<close>

definition sync_projects :: "env \<Rightarrow> string \<Rightarrow> jsval \<Rightarrow> unit io" where
  "sync_projects E uid cloudProjects =
     bind (lift (js_get cloudProjects ''length'')) (\<lambda>len.
     if len = JNumber 0
       then bind (emit (Console LogInfo ''No cloud projects found'' [])) (\<lambda>_.
            emit (InfoNotification ''No cloud projects to sync'' []))
       else bind (toString E len) (\<lambda>_.
            bind (emit (Console LogInfo ''Found {0} cloud projects'' [len])) (\<lambda>_.
            bind (lift (js_iterate cloudProjects)) (\<lambda>items.
            bind (sync_loop E uid items 0 0) (\<lambda>(importedCount, skippedCount).
            sync_report importedCount skippedCount)))))"

definition sync_try :: "env \<Rightarrow> unit io" where
  "sync_try E =
     bind (getCurrentUserId E) (\<lambda>uid.
     bind (getUserProjects E uid) (\<lambda>cloudProjects.
     sync_projects E uid cloudProjects))"

definition syncFromCloud :: "env \<Rightarrow> unit io" where
  "syncFromCloud E =
     bind (emit (Console LogInfo ''Starting cloud sync...'' [])) (\<lambda>_.
     try_catch (sync_try E)
       (\<lambda>error.
          bind (lift (error_message E error)) (\<lambda>errorMsg.
          bind (emit (Console LogError ''Cloud sync failed:'' [error_value error])) (\<lambda>_.
          emit (ErrorNotification ''Cloud sync failed: {0}'' [JString errorMsg])))))"

section \<open>An example environment\<close>

text \<open>
  A small host against which the theorems below are instantiated: a server with three
  listed projects (the second cannot be fetched, the third has an unknown payload shape),
  an identity codec, and a table in place of \<^verbatim>\<open>JSON.parse\<close>.
\<close>

definition demo_parse :: "string \<Rightarrow> thrown + jsval" where
  "demo_parse s =
     (case map_of
        [(''good'', JObject [(''text'', JObject [(''pxt.json'', JString ''cfg'')]), (''header'', JObject [])]),
         (''cfg'', JObject [(''preferredEditor'', JString ''tsprj'')]),
         (''legacy'', JObject [(''source'', JString ''files''), (''meta'', JObject [])]),
         (''files'', JObject [(''main.ts'', JString ''let x = 1'')]),
         (''blank'', JObject [(''text'', JObject [(''pxt.json'', JString [])])]),
         (''other'', JObject [(''files'', JArray [])]),
         (''null'', JNull),
         (''nosource'', JObject [(''source'', JString [])]),
         (''nullsource'', JObject [(''source'', JString ''null'')])] s of
        None \<Rightarrow> Inl (ErrorInstance ''Unexpected token'')
      | Some v \<Rightarrow> Inr v)"

definition demo_server :: "(string \<times> response) list" where
  "demo_server =
     [(''http://localhost:3001/api/projects/user/test-user'',
         \<lparr>ok = True, json = Inr (JArray
            [JObject [(''id'', JNumber 1), (''project_name'', JString ''Foo'')],
             JObject [(''id'', JNumber 2), (''project_name'', JString ''Bar'')],
             JObject [(''id'', JNumber 3), (''project_name'', JString ''Baz'')]])\<rparr>),
      (''http://localhost:3001/api/projects/1?userId=test-user'',
         \<lparr>ok = True, json = Inr (JObject
            [(''id'', JNumber 1), (''project_name'', JString ''Foo''), (''project_data'', JString ''good'')])\<rparr>),
      (''http://localhost:3001/api/projects/3?userId=test-user'',
         \<lparr>ok = True, json = Inr (JObject
            [(''id'', JNumber 3), (''project_name'', JString ''Baz''), (''project_data'', JString ''other'')])\<rparr>)]"

definition demo_env :: env where
  "demo_env =
     \<lparr>fetch = (\<lambda>req n. case map_of demo_server (url req) of
                 None \<Rightarrow> Inl (ErrorInstance ''Failed to fetch'') | Some r \<Rightarrow> Inr r),
      localStorage_getItem = (\<lambda>k. Inr None),
      encodeURIComponent = (\<lambda>s. Inr s),
      numberToString = (\<lambda>r. if r = 1 then ''1'' else if r = 2 then ''2'' else if r = 3 then ''3'' else ''0''),
      JSON_parse = demo_parse,
      encodeBase64 = (\<lambda>s. s),
      decodeBase64 = (\<lambda>v. case v of JString s \<Rightarrow> Inr s | _ \<Rightarrow> Inl (ErrorInstance ''Not a string'')),
      uint8ArrayToString = map (\<lambda>b. char_of (unat b)),
      stringToUint8Array = map (\<lambda>c. of_nat (of_char c)),
      lzmaDecompressAsync = (\<lambda>bs. Inr (map (\<lambda>b. char_of (unat b)) bs)),
      installAsync = (\<lambda>h txt hs. Inr (hs @ [h])),
      appTarget_id = ''arcade'',
      refreshWorkspace = None\<rparr>"

text \<open>The world before a run: nothing stored locally, nothing written yet.\<close>

definition demo_world :: world where
  "demo_world = \<lparr>API_BASE_URL = ''http://localhost:3001'', fetch_count = 0, local_headers = [], trace = []\<rparr>"

text \<open>The first project as importCloudProject receives it, and the header it installs.\<close>

definition foo_data :: CloudProjectData where
  "foo_data = \<lparr>projectName = JString ''Foo'', projectData = JString ''good'', createdAt = JUndefined\<rparr>"

definition foo_header :: install_header where
  "foo_header = \<lparr>target = ''arcade'', targetVersion = JUndefined, editor = JString ''tsprj'',
     name = JString ''Foo'', meta = JObject [], pubId = JString [], pubCurrent = False\<rparr>"


definition empty_env :: env where
  "empty_env = demo_env\<lparr>fetch := (\<lambda>req n. Inr \<lparr>ok = True, json = Inr (JArray [])\<rparr>)\<rparr>"

definition notfound_env :: env where
  "notfound_env = demo_env\<lparr>fetch := (\<lambda>req n.
     Inr \<lparr>ok = False, json = Inr (JObject [(''error'', JString ''Project not found'')])\<rparr>)\<rparr>"

definition htmlerr_env :: env where
  "htmlerr_env = demo_env\<lparr>fetch := (\<lambda>req n.
     Inr \<lparr>ok = False, json = Inl (ErrorInstance ''Unexpected token < in JSON at position 0'')\<rparr>)\<rparr>"


text \<open>
  A value that cannot be converted to a string: an object whose \<^verbatim>\<open>toString\<close> member is not
  a function. Further variants of the host, in which it turns up: a network and a workspace
  store that reject with it, and a server whose error body carries it as the message; two
  more servers, whose error body carries an empty message and whose error body is \<^verbatim>\<open>null\<close>.
\<close>

definition opaque :: jsval where
  "opaque = JObject [(''toString'', JNull)]"



definition opaque_message_env :: env where
  "opaque_message_env = demo_env\<lparr>fetch := (\<lambda>req n.
     Inr \<lparr>ok = False, json = Inr (JObject [(''error'', opaque)])\<rparr>)\<rparr>"

definition unexplained_env :: env where
  "unexplained_env = demo_env\<lparr>fetch := (\<lambda>req n.
     Inr \<lparr>ok = False, json = Inr (JObject [(''error'', JString [])])\<rparr>)\<rparr>"

definition nullbody_env :: env where
  "nullbody_env = demo_env\<lparr>fetch := (\<lambda>req n. Inr \<lparr>ok = False, json = Inr JNull\<rparr>)\<rparr>"

text \<open>A project whose configuration file is empty, one in the first shape without a
  configuration file, and one of unknown shape.\<close>

definition blank_data :: CloudProjectData where
  "blank_data = \<lparr>projectName = JString ''Blank'', projectData = JString ''blank'', createdAt = JUndefined\<rparr>"

definition legacy_data :: CloudProjectData where
  "legacy_data = \<lparr>projectName = JString ''Old'', projectData = JString ''legacy'', createdAt = JUndefined\<rparr>"

definition other_data :: CloudProjectData where
  "other_data = \<lparr>projectName = JString ''Baz'', projectData = JString ''other'', createdAt = JUndefined\<rparr>"

text \<open>Four more: a payload that is \<^verbatim>\<open>null\<close>, one whose \<^verbatim>\<open>source\<close> is the empty string, one
  whose \<^verbatim>\<open>source\<close> holds the text \<^verbatim>\<open>null\<close>, and the project of unknown shape under a name that
  cannot be converted to a string.\<close>

definition null_data :: CloudProjectData where
  "null_data = \<lparr>projectName = JString ''Nil'', projectData = JString ''null'', createdAt = JUndefined\<rparr>"

definition nosource_data :: CloudProjectData where
  "nosource_data = \<lparr>projectName = JString ''Empty'', projectData = JString ''nosource'', createdAt = JUndefined\<rparr>"

definition nullsource_data :: CloudProjectData where
  "nullsource_data = \<lparr>projectName = JString ''Void'', projectData = JString ''nullsource'', createdAt = JUndefined\<rparr>"

definition opaque_data :: CloudProjectData where
  "opaque_data = \<lparr>projectName = opaque, projectData = JString ''other'', createdAt = JUndefined\<rparr>"

text \<open>The three list entries of the example server.\<close>

definition demo_items :: "jsval list" where
  "demo_items =
     [JObject [(''id'', JNumber 1), (''project_name'', JString ''Foo'')],
      JObject [(''id'', JNumber 2), (''project_name'', JString ''Bar'')],
      JObject [(''id'', JNumber 3), (''project_name'', JString ''Baz'')]]"

text \<open>The example world once the list has arrived, and what the run writes after that.\<close>

definition demo_start :: world where
  "demo_start = demo_world\<lparr>fetch_count := 1, trace :=
     [Console LogInfo ''Starting cloud sync...'' [],
      Fetch (getUserProjects_request ''http://localhost:3001'' ''test-user''),
      Console LogInfo ''Fetched {0} projects for user {1}'' [JNumber 3, JString ''test-user''],
      Console LogInfo ''Found {0} cloud projects'' [JNumber 3]]\<rparr>"

definition demo_run_events :: "event list" where
  "demo_run_events =
     [Fetch (getProject_request ''http://localhost:3001'' ''1'' ''test-user''),
      Console LogInfo ''Fetched project {0}:'' [JNumber 1, JString ''Foo''],
      Console LogInfo ''Importing project: {0}'' [JString ''Foo''],
      Install foo_header (JObject [(''pxt.json'', JString ''cfg'')]),
      Console LogInfo ''Successfully imported project: {0}'' [JString ''Foo''],
      Fetch (getProject_request ''http://localhost:3001'' ''2'' ''test-user''),
      Console LogError ''Error fetching project {0}:''
        [JNumber 2, JObject [(''message'', JString ''Failed to fetch'')]],
      Console LogError ''Failed to import project {0}:''
        [JString ''Bar'', JObject [(''message'', JString ''Failed to fetch'')]],
      Fetch (getProject_request ''http://localhost:3001'' ''3'' ''test-user''),
      Console LogInfo ''Fetched project {0}:'' [JNumber 3, JString ''Baz''],
      Console LogInfo ''Importing project: {0}'' [JString ''Baz''],
      Console LogError ''Unknown project format!'' [],
      Console LogError ''   Project keys:'' [JArray [JString ''files'']],
      Console LogError ''   Project structure:'' [JObject [(''files'', JArray [])]],
      Console LogError (''Failed to import project '' @ dq @ ''{0}'' @ dq @ '':'')
        [JString ''Baz'', JObject [(''message'', JString unknown_format)]],
      ErrorNotification ''Failed to import '{0}': {1}'' [JString ''Baz'', JString unknown_format],
      Console LogError ''Failed to import project {0}:''
        [JString ''Baz'', JObject [(''message'', JString unknown_format)]],
      Console LogInfo ''Cloud sync complete! Imported: {0}, Skipped: {1}'' [JNumber 1, JNumber 0],
      InfoNotification ''Synced {0} project(s) from cloud'' [JNumber 1]]"

text \<open>A server that answers the list call and no request after it.\<close>

definition unreachable_env :: env where
  "unreachable_env = demo_env\<lparr>fetch := (\<lambda>req n.
     if n = 0 then Inr \<lparr>ok = True, json = Inr (JArray demo_items)\<rparr>
     else Inl (ErrorInstance ''Failed to fetch''))\<rparr>"

text \<open>Two servers that answer the list call with two entries, the first of which is
  \<^verbatim>\<open>null\<close>, respectively a project that cannot be fetched and whose name cannot be converted
  to a string; after that they answer as the example server does.\<close>

definition null_entry_env :: env where
  "null_entry_env = demo_env\<lparr>fetch := (\<lambda>req n.
     if n = 0 then Inr \<lparr>ok = True, json = Inr (JArray
        [JNull, JObject [(''id'', JNumber 1), (''project_name'', JString ''Foo'')]])\<rparr>
     else fetch demo_env req n)\<rparr>"

definition opaque_entry_env :: env where
  "opaque_entry_env = demo_env\<lparr>fetch := (\<lambda>req n.
     if n = 0 then Inr \<lparr>ok = True, json = Inr (JArray
        [JObject [(''id'', JNumber 2), (''project_name'', opaque)],
         JObject [(''id'', JNumber 1), (''project_name'', JString ''Foo'')]])\<rparr>
     else fetch demo_env req n)\<rparr>"

section \<open>Derived notions used in the statements\<close>

text \<open>What a skipped import writes to the console.\<close>

definition skipped_events :: "CloudProjectData \<Rightarrow> event list" where
  "skipped_events cloudData =
     [Console LogInfo ''Importing project: {0}'' [projectName cloudData],
      Console LogInfo (''Project '' @ dq @ ''{0}'' @ dq @ '' already exists locally'') [projectName cloudData],
      Console LogInfo ''   Local files trump cloud files - skipping import'' []]"

text \<open>A value that \<^verbatim>\<open>String\<close> converts; every string, number, boolean, \<^verbatim>\<open>null\<close> and
  \<^verbatim>\<open>undefined\<close> is one.\<close>

definition convertible :: "env \<Rightarrow> jsval \<Rightarrow> bool" where
  "convertible E v = (\<not> isl (js_String E v))"

text \<open>
  The five operations of the transport layer, so that a statement can range over them:
  the request each one sends (or the error that building its URL raises), its default
  failure message, and the error it fails with (if it fails).
\<close>

datatype operation =
    SaveProject string string string
  | GetUserProjects string
  | GetProject jsval string
  | UpdateProject jsval string "string option" "string option"
  | DeleteProject jsval string

fun op_request :: "env \<Rightarrow> string \<Rightarrow> operation \<Rightarrow> js_error + request" where
  "op_request E base (SaveProject uid pname pdata) = Inr (saveProject_request E base uid pname pdata)"
| "op_request E base (GetUserProjects uid) =
     (case encodeURIComponent E uid of
        Inl x \<Rightarrow> Inl (External x)
      | Inr encoded \<Rightarrow> Inr (getUserProjects_request base encoded))"
| "op_request E base (GetProject pid uid) =
     (case js_String E pid of
        Inl t \<Rightarrow> Inl t
      | Inr p \<Rightarrow> (case encodeURIComponent E uid of
                   Inl x \<Rightarrow> Inl (External x)
                 | Inr encoded \<Rightarrow> Inr (getProject_request base p encoded)))"
| "op_request E base (UpdateProject pid uid pname pdata) =
     (case js_String E pid of
        Inl t \<Rightarrow> Inl t
      | Inr p \<Rightarrow> Inr (updateProject_request E base p uid pname pdata))"
| "op_request E base (DeleteProject pid uid) =
     (case js_String E pid of
        Inl t \<Rightarrow> Inl t
      | Inr p \<Rightarrow> (case encodeURIComponent E uid of
                   Inl x \<Rightarrow> Inl (External x)
                 | Inr encoded \<Rightarrow> Inr (deleteProject_request base p encoded)))"

fun default_message :: "operation \<Rightarrow> string" where
  "default_message (SaveProject uid pname pdata) = ''Failed to save project''"
| "default_message (GetUserProjects uid) = ''Failed to fetch projects''"
| "default_message (GetProject pid uid) = ''Failed to fetch project''"
| "default_message (UpdateProject pid uid pname pdata) = ''Failed to update project''"
| "default_message (DeleteProject pid uid) = ''Failed to delete project''"

definition failure_of :: "(js_error + 'a) \<times> world \<Rightarrow> js_error option" where
  "failure_of r = (case fst r of Inl e \<Rightarrow> Some e | Inr v \<Rightarrow> None)"

fun op_failure :: "env \<Rightarrow> operation \<Rightarrow> world \<Rightarrow> js_error option" where
  "op_failure E (SaveProject uid pname pdata) st = failure_of (saveProject E uid pname pdata st)"
| "op_failure E (GetUserProjects uid) st = failure_of (getUserProjects E uid st)"
| "op_failure E (GetProject pid uid) st = failure_of (getProject E pid uid st)"
| "op_failure E (UpdateProject pid uid pname pdata) st = failure_of (updateProject E pid uid pname pdata st)"
| "op_failure E (DeleteProject pid uid) st = failure_of (deleteProject E pid uid st)"

text \<open>The error thrown on an unsuccessful status, as a value.\<close>

definition api_error :: "env \<Rightarrow> response \<Rightarrow> string \<Rightarrow> js_error" where
  "api_error E resp dflt =
     (case json resp of
        Inl x \<Rightarrow> External x
      | Inr v \<Rightarrow> (case js_get v ''error'' of
                   Inl e \<Rightarrow> e
                 | Inr m \<Rightarrow> (case js_String E (js_or m (JString dflt)) of
                              Inl t \<Rightarrow> t
                            | Inr message \<Rightarrow> Error message)))"

text \<open>The requests among the events of a run, and the text of a JSON object whose members
  are given one by one, each a name with a string value.\<close>

fun sent :: "event \<Rightarrow> request list" where
  "sent (Fetch req) = [req]"
| "sent ev = []"

definition requests :: "event list \<Rightarrow> request list" where
  "requests evs = concat (map sent evs)"

definition member_text :: "string \<Rightarrow> string \<Rightarrow> string" where
  "member_text k v = dq @ k @ dq @ '':'' @ quoteJSONString v"

definition object_text :: "string list \<Rightarrow> string" where
  "object_text members = ''{'' @ join_with '','' members @ ''}''"

fun given :: "string \<Rightarrow> string option \<Rightarrow> string list" where
  "given k None = []"
| "given k (Some v) = [member_text k v]"

text \<open>The first console line of an import.\<close>

definition importing :: "CloudProjectData \<Rightarrow> event" where
  "importing cd = Console LogInfo ''Importing project: {0}'' [projectName cd]"



text \<open>An action only appends events, each of which satisfies \<open>P\<close>.\<close>

definition appends :: "(event \<Rightarrow> bool) \<Rightarrow> 'a io \<Rightarrow> bool" where
  "appends P m = (\<forall>st. \<exists>evs. trace (snd (m st)) = trace st @ evs \<and> list_all P evs)"

text \<open>
  The two payload shapes as importCloudProject tests them, the file map a payload yields,
  and the two conditions under which the format is rejected.
\<close>

definition shape_A :: "jsval \<Rightarrow> bool" where
  "shape_A pd = (truthy (js_opt_get pd ''source'') \<and> typeof (js_opt_get pd ''source'') = ''string'')"

definition shape_B :: "jsval \<Rightarrow> bool" where
  "shape_B pd = (truthy (js_opt_get pd ''text'') \<and> typeof (js_opt_get pd ''text'') = ''object'')"

fun string_value :: "jsval \<Rightarrow> string" where
  "string_value (JString s) = s"
| "string_value v = []"

definition file_map :: "env \<Rightarrow> jsval \<Rightarrow> jsval option" where
  "file_map E pd =
     (if shape_A pd
        then (case JSON_parse E (string_value (js_opt_get pd ''source'')) of
                Inl x \<Rightarrow> None | Inr files \<Rightarrow> Some files)
      else if shape_B pd then Some (js_opt_get pd ''text'')
      else None)"

definition unrecognised :: "env \<Rightarrow> CloudProjectData \<Rightarrow> bool" where
  "unrecognised E cd =
     (case parsePayload E cd of
        Inl x \<Rightarrow> False
      | Inr pd \<Rightarrow> \<not> nullish pd \<and> \<not> shape_A pd \<and> \<not> shape_B pd)"

definition lacks_config :: "env \<Rightarrow> CloudProjectData \<Rightarrow> bool" where
  "lacks_config E cd =
     (case parsePayload E cd of
        Inl x \<Rightarrow> False
      | Inr pd \<Rightarrow> \<not> nullish pd \<and>
          (case file_map E pd of
             None \<Rightarrow> False
           | Some files \<Rightarrow> \<not> nullish files \<and> \<not> truthy (js_opt_get files CONFIG_NAME)))"

text \<open>Console output and error notifications: the events of a rejected import.\<close>

fun only_reports :: "event \<Rightarrow> bool" where
  "only_reports (Console l t a) = True"
| "only_reports (ErrorNotification t a) = True"
| "only_reports ev = False"

text \<open>The specification's wording of the two cases: an object-valued field, and a file
  map with an entry under a name.\<close>

fun is_object :: "jsval \<Rightarrow> bool" where
  "is_object (JObject kvs) = True"
| "is_object v = False"

fun has_entry :: "jsval \<Rightarrow> string \<Rightarrow> bool" where
  "has_entry (JObject kvs) k = (k \<in> set (map fst kvs))"
| "has_entry v k = False"

text \<open>What is logged when neither shape matches.\<close>

definition unknown_format_log :: "jsval \<Rightarrow> event list" where
  "unknown_format_log pd =
     [Console LogError ''Unknown project format!'' [],
      Console LogError ''   Project keys:'' [object_keys pd],
      Console LogError ''   Project structure:'' [pd]]"

text \<open>The events of the second state that the first does not have yet.\<close>

definition new_events :: "world \<Rightarrow> world \<Rightarrow> event list" where
  "new_events st st' = drop (length (trace st)) (trace st')"

text \<open>
  What processing the list entries may write: anything but an info notification, and an
  error notification only in the form importCloudProject gives its own.
\<close>

fun loop_event :: "event \<Rightarrow> bool" where
  "loop_event (InfoNotification t a) = False"
| "loop_event (ErrorNotification t a) = (t = ''Failed to import '{0}': {1}'')"
| "loop_event ev = True"

fun console_or_fetch :: "event \<Rightarrow> bool" where
  "console_or_fetch (Console l t a) = True"
| "console_or_fetch (Fetch req) = True"
| "console_or_fetch ev = False"

text \<open>
  A list entry as far as the loop relies on its declared type \<^verbatim>\<open>DbProjectListItem\<close>: it is
  not \<^verbatim>\<open>null\<close>, and its \<^verbatim>\<open>project_name\<close> can be converted to a string.
\<close>

definition entry_ok :: "env \<Rightarrow> jsval \<Rightarrow> bool" where
  "entry_ok E x = (\<not> nullish x \<and> convertible E (js_opt_get x ''project_name''))"

text \<open>What the inner \<^verbatim>\<open>catch\<close> of the loop writes for an entry and the error caught.\<close>

definition entry_failed :: "jsval \<Rightarrow> js_error \<Rightarrow> event" where
  "entry_failed projectInfo error =
     Console LogError ''Failed to import project {0}:'' [js_opt_get projectInfo ''project_name'', error_value error]"

text \<open>
  The result of the body of the inner \<^verbatim>\<open>try\<close> for each entry the loop reaches, in order,
  each in the state the loop is in at that entry; and how many entries were imported,
  were skipped, or succeeded either way.
\<close>

fun item_results :: "env \<Rightarrow> string \<Rightarrow> jsval list \<Rightarrow> nat \<Rightarrow> nat \<Rightarrow> world \<Rightarrow> (js_error + bool) list" where
  "item_results E uid [] i s st = []"
| "item_results E uid (projectInfo # rest) i s st =
     fst (sync_item E uid projectInfo st) #
       (case sync_step E uid projectInfo i s st of
          (Inl e, st') \<Rightarrow> []
        | (Inr (i', s'), st') \<Rightarrow> item_results E uid rest i' s' st')"

definition count_imported :: "(js_error + bool) list \<Rightarrow> nat" where
  "count_imported rs = length (filter (\<lambda>r. r = Inr True) rs)"

definition count_skipped :: "(js_error + bool) list \<Rightarrow> nat" where
  "count_skipped rs = length (filter (\<lambda>r. r = Inr False) rs)"

definition count_succeeded :: "(js_error + bool) list \<Rightarrow> nat" where
  "count_succeeded rs = length (filter (\<lambda>r. \<not> isl r) rs)"

text \<open>The console line that announces the number of listed projects.\<close>

definition found :: "nat \<Rightarrow> event" where
  "found n = Console LogInfo ''Found {0} cloud projects'' [num n]"

text \<open>
  Notifications, and the notifications syncFromCloud issues itself (every info
  notification, and the error notification of the outer \<^verbatim>\<open>catch\<close>).
\<close>

fun is_notification :: "event \<Rightarrow> bool" where
  "is_notification (InfoNotification t a) = True"
| "is_notification (ErrorNotification t a) = True"
| "is_notification ev = False"

fun is_aggregate :: "event \<Rightarrow> bool" where
  "is_aggregate (InfoNotification t a) = True"
| "is_aggregate (ErrorNotification t a) = (t = ''Cloud sync failed: {0}'')"
| "is_aggregate ev = False"

text \<open>What the outer \<^verbatim>\<open>catch\<close> of syncFromCloud writes for an error and its message.\<close>

definition sync_failed :: "js_error \<Rightarrow> string \<Rightarrow> event list" where
  "sync_failed error errorMsg =
     [Console LogError ''Cloud sync failed:'' [error_value error],
      ErrorNotification ''Cloud sync failed: {0}'' [JString errorMsg]]"

text \<open>The summary line of a run in which no entry was imported and none was skipped.\<close>

definition all_failed_summary :: event where
  "all_failed_summary =
     Console LogInfo ''Cloud sync complete! Imported: {0}, Skipped: {1}'' [num 0, num 0]"

text \<open>
  An action issues no notification of syncFromCloud's own when it fails, and when it
  returns it has issued either exactly one of them, or none and has written the summary
  line of a run without imported and skipped entries.
\<close>

definition reports :: "'a io \<Rightarrow> bool" where
  "reports m = (\<forall>st. \<exists>evs.
     trace (snd (m st)) = trace st @ evs
     \<and> (case fst (m st) of
          Inl e \<Rightarrow> filter is_aggregate evs = []
        | Inr v \<Rightarrow> (\<exists>ev. filter is_aggregate evs = [ev])
                 \<or> (filter is_aggregate evs = [] \<and> all_failed_summary \<in> set evs)))"

section \<open>Basic facts\<close>

lemmas io_defs = return_def throw_def bind_def try_catch_def emit_def lift_def external_def
  read_API_BASE_URL_def getHeaders_def toString_def

lemma char_of_byte: "char_of (unat (of_nat (of_char (c :: char) :: nat) :: 8 word)) = c"
proof -
  have "(of_char c :: nat) < 2 ^ LENGTH(8)" by simp
  then have "unat (of_nat (of_char c :: nat) :: 8 word) = of_char c"
    by (rule of_nat_inverse [OF refl])
  then show ?thesis by simp
qed

lemma collect_fails: "collect rs = Inl e \<Longrightarrow> Inl e \<in> set rs"
  by (induction rs) (auto split: sum.splits)

lemma conversion_error: "js_String E v = Inl e \<Longrightarrow> e = cannot_convert"
proof (induction E v rule: js_String.induct)
  case (6 E xs)
  from 6(2) have "collect (map (\<lambda>x. if x = JUndefined \<or> x = JNull then Inr [] else js_String E x) xs) = Inl e"
    by (simp split: sum.splits)
  then obtain x where "x \<in> set xs" "\<not> (x = JUndefined \<or> x = JNull)" "js_String E x = Inl e"
    using collect_fails by fastforce
  with 6(1) show ?case by blast
qed (auto split: option.splits)

lemma message_error:
  assumes "error_message E e = Inl t"
  shows "t = cannot_convert"
proof (cases e)
  case (External x)
  with assms show ?thesis by (cases x) (auto dest: conversion_error)
qed (use assms in simp_all)


lemma strict_eq_convertible: "strict_eq a b \<Longrightarrow> \<exists>s. js_String E b = Inr s"
  by (cases a; cases b) simp_all

lemma string_convertible: "typeof v = ''string'' \<Longrightarrow> js_String E v = Inr (string_value v)"
  by (cases v) simp_all

lemma convertibleD: "convertible E v \<Longrightarrow> \<exists>s. js_String E v = Inr s"
  by (cases "js_String E v") (simp_all add: convertible_def)

lemma demo_decompress:
  "lzmaDecompressAsync demo_env (stringToUint8Array demo_env s) = Inr s"
  unfolding demo_env_def by (induction s) (simp_all add: char_of_byte)

lemma demo_parsePayload:
  "parsePayload demo_env \<lparr>projectName = n, projectData = JString s, createdAt = c\<rparr> = demo_parse s"
proof -
  have "decodeBase64 demo_env (JString s) = Inr s" "JSON_parse demo_env = demo_parse"
    by (simp_all add: demo_env_def)
  then show ?thesis
    by (simp add: parsePayload_def base64ToUint8Array_def demo_decompress)
qed

lemma demo_payload_good:
  "parsePayload demo_env foo_data =
     Inr (JObject [(''text'', JObject [(''pxt.json'', JString ''cfg'')]), (''header'', JObject [])])"
  by (simp add: foo_data_def demo_parsePayload) (simp add: demo_parse_def)

lemma demo_format_good:
  "fst (readFormat E (JObject [(''text'', JObject [(''pxt.json'', JString ''cfg'')]), (''header'', JObject [])]) st) =
     Inr (JObject [(''pxt.json'', JString ''cfg'')], JObject [], JString ''cfg'')"
  by (simp add: readFormat_def io_defs CONFIG_NAME_def)

lemma readFormat_fst: "fst (readFormat E pd st) = fst (readFormat E pd st')"
  by (simp add: readFormat_def io_defs split: sum.splits prod.splits)

lemma readFormat_Inr: "readFormat E pd st = (Inr r, st') \<Longrightarrow> st' = st"
  by (auto simp add: readFormat_def io_defs split: sum.splits prod.splits if_splits)

lemma find_collision:
  "\<exists>h\<in>set hs. P h \<Longrightarrow> \<exists>h. find P hs = Some h"
  by (cases "find P hs") (auto simp: find_None_iff)

lemma import_collision:
  assumes "parsePayload E cd = Inr pd"
      and "fst (readFormat E pd st0) = Inr (txt, header, cfg)"
      and "\<exists>h\<in>set (local_headers st). strict_eq (name h) (projectName cd)"
  shows "importCloudProject E cd st = (Inr False, st\<lparr>trace := trace st @ skipped_events cd\<rparr>)"
proof -
  let ?st1 = "st\<lparr>trace := trace st @ [Console LogInfo ''Importing project: {0}'' [projectName cd]]\<rparr>"
  have "fst (readFormat E pd ?st1) = Inr (txt, header, cfg)"
    using assms(2) readFormat_fst by metis
  then have rf: "readFormat E pd ?st1 = (Inr (txt, header, cfg), ?st1)"
    using readFormat_Inr [of E pd ?st1] by (metis prod.collapse)
  obtain h where h: "find (\<lambda>h. strict_eq (name h) (projectName cd)) (local_headers st) = Some h"
    using find_collision [OF assms(3)] by blast
  obtain s where s: "js_String E (projectName cd) = Inr s"
    using assms(3) strict_eq_convertible by blast
  show ?thesis
    using assms(1) rf h s
    by (simp add: importCloudProject_def import_body_def installProject_def skipped_events_def io_defs)
qed

section \<open>Project importer: local precedence\<close>

text \<open>
  Claim C1. When the decoded payload is well-formed (it parses and passes the format
  checks) and a local header has the incoming project name, importCloudProject returns
  false, changes nothing but the console (no installation request, the local headers as
  they were), and a second import of the same project does the same.
\<close>

theorem import_collision_skips:
  assumes "parsePayload E cd = Inr pd"
      and "fst (readFormat E pd st) = Inr (txt, header, cfg)"
      and "\<exists>h\<in>set (local_headers st). strict_eq (name h) (projectName cd)"
  shows "importCloudProject E cd st = (Inr False, st\<lparr>trace := trace st @ skipped_events cd\<rparr>)
       \<and> importCloudProject E cd (snd (importCloudProject E cd st)) =
           (Inr False, st\<lparr>trace := trace st @ skipped_events cd @ skipped_events cd\<rparr>)"
proof -
  have first: "importCloudProject E cd st = (Inr False, st\<lparr>trace := trace st @ skipped_events cd\<rparr>)"
    using import_collision [OF assms] .
  have "\<exists>h\<in>set (local_headers (st\<lparr>trace := trace st @ skipped_events cd\<rparr>)). strict_eq (name h) (projectName cd)"
    using assms(3) by simp
  from import_collision [OF assms(1) assms(2) this] first
  show ?thesis by simp
qed

theorem import_collision_skips_witness:
  "importCloudProject demo_env foo_data (demo_world\<lparr>local_headers := [foo_header]\<rparr>) =
     (Inr False, demo_world\<lparr>local_headers := [foo_header], trace := skipped_events foo_data\<rparr>)
   \<and> importCloudProject demo_env foo_data
        (snd (importCloudProject demo_env foo_data (demo_world\<lparr>local_headers := [foo_header]\<rparr>))) =
     (Inr False, demo_world\<lparr>local_headers := [foo_header],
                   trace := skipped_events foo_data @ skipped_events foo_data\<rparr>)"
proof -
  have h: "\<exists>h\<in>set (local_headers (demo_world\<lparr>local_headers := [foo_header]\<rparr>)).
             strict_eq (name h) (projectName foo_data)"
    by (simp add: foo_header_def foo_data_def)
  show ?thesis
    using import_collision_skips [OF demo_payload_good demo_format_good h]
    by (auto simp add: demo_world_def)
qed

section \<open>Sync orchestrator: the outer boundary\<close>





section \<open>Codec adapter\<close>

text \<open>
  Claim C9. If decoding undoes encoding and the byte/string conversions undo each other,
  then base64ToUint8Array undoes uint8ArrayToBase64 on every byte array.
\<close>

theorem base64_roundtrip:
  assumes "\<forall>s. decodeBase64 E (JString (encodeBase64 E s)) = Inr s"
      and "\<forall>a. stringToUint8Array E (uint8ArrayToString E a) = a"
  shows "base64ToUint8Array E (JString (uint8ArrayToBase64 E a)) = Inr a"
  using assms by (simp add: base64ToUint8Array_def uint8ArrayToBase64_def)

lemma byte_of_char: "(of_nat (of_char (char_of (unat (b :: 8 word)) :: char) :: nat) :: 8 word) = b"
proof -
  have "unat b < 256" using unsigned_less [of b] by simp
  then show ?thesis by simp
qed

lemma demo_bytes_roundtrip:
  "stringToUint8Array demo_env (uint8ArrayToString demo_env a) = a"
  unfolding demo_env_def by (induction a) (simp_all add: byte_of_char del: of_char_of)

theorem base64_roundtrip_witness:
  "base64ToUint8Array demo_env (JString (uint8ArrayToBase64 demo_env [0x50, 0x4B, 0xFF])) = Inr [0x50, 0x4B, 0xFF]"
proof -
  have h1: "\<forall>s. decodeBase64 demo_env (JString (encodeBase64 demo_env s)) = Inr s"
    by (simp add: demo_env_def)
  have h2: "\<forall>a. stringToUint8Array demo_env (uint8ArrayToString demo_env a) = a"
    using demo_bytes_roundtrip by blast
  show ?thesis using base64_roundtrip [OF h1 h2] .
qed

section \<open>Transport layer: the update request\<close>

lemma new_events_append: "trace st' = trace st @ evs \<Longrightarrow> new_events st st' = evs"
  by (simp add: new_events_def)

lemma update_body:
  "body (updateProject_request E base p uid pname pdata) =
     Some (object_text (member_text ''userId'' uid # given ''projectName'' pname @ given ''projectData'' pdata))"
  by (cases pname; cases pdata)
     (simp_all add: updateProject_request_def JSON_stringify_def object_text_def member_text_def
        quoteJSONString_def escape_char_def dq_def)

lemma updateProject_requests:
  "requests (new_events st (snd (updateProject E pid uid pname pdata st))) =
     (case js_String E pid of
        Inl t \<Rightarrow> []
      | Inr p \<Rightarrow> [updateProject_request E (API_BASE_URL st) p uid pname pdata])"
  by (simp add: updateProject_def throw_api_error_def do_fetch_def requests_def new_events_def io_defs
      split: sum.splits)

text \<open>
  Claim C6. A call of updateProject without a project name sends, when the project id can
  be written into the URL, exactly one request, and the body of that request is the text
  of an object with the member \<^verbatim>\<open>userId\<close>, followed by the member \<^verbatim>\<open>projectData\<close> if project
  data was given, and with no other member: it is the serialization of an object that has
  no \<^verbatim>\<open>projectName\<close> member. Likewise for a call without project data. (When the project id
  cannot be converted to a string, no request is sent at all.)
\<close>

theorem updateProject_omitted_fields_absent:
  "requests (new_events st (snd (updateProject E pid uid None pdata st))) =
     (case js_String E pid of
        Inl t \<Rightarrow> []
      | Inr p \<Rightarrow>
          [\<lparr>url = API_BASE_URL st @ ''/api/projects/'' @ p, http_method = ''PUT'',
            headers = [(''Content-Type'', ''application/json'')],
            body = Some (object_text (member_text ''userId'' uid # given ''projectData'' pdata))\<rparr>])
 \<and> requests (new_events st (snd (updateProject E pid uid pname None st))) =
     (case js_String E pid of
        Inl t \<Rightarrow> []
      | Inr p \<Rightarrow>
          [\<lparr>url = API_BASE_URL st @ ''/api/projects/'' @ p, http_method = ''PUT'',
            headers = [(''Content-Type'', ''application/json'')],
            body = Some (object_text (member_text ''userId'' uid # given ''projectName'' pname))\<rparr>])
 \<and> object_text (member_text ''userId'' uid # given ''projectData'' pdata) =
     serialize E (JObject ((''userId'', JString uid) #
        (case pdata of None \<Rightarrow> [] | Some d \<Rightarrow> [(''projectData'', JString d)])))
 \<and> object_text (member_text ''userId'' uid # given ''projectName'' pname) =
     serialize E (JObject ((''userId'', JString uid) #
        (case pname of None \<Rightarrow> [] | Some n \<Rightarrow> [(''projectName'', JString n)])))"
proof -
  have r: "updateProject_request E base p uid n d =
      \<lparr>url = base @ ''/api/projects/'' @ p, http_method = ''PUT'',
       headers = [(''Content-Type'', ''application/json'')],
       body = Some (object_text (member_text ''userId'' uid # given ''projectName'' n @ given ''projectData'' d))\<rparr>"
    for base p n d
    using update_body [of E base p uid n d]
    by (simp add: updateProject_request_def json_headers_def)
  have t: "object_text (member_text ''userId'' uid # given ''projectData'' pdata) =
     serialize E (JObject ((''userId'', JString uid) #
        (case pdata of None \<Rightarrow> [] | Some d \<Rightarrow> [(''projectData'', JString d)])))"
    "object_text (member_text ''userId'' uid # given ''projectName'' pname) =
     serialize E (JObject ((''userId'', JString uid) #
        (case pname of None \<Rightarrow> [] | Some n \<Rightarrow> [(''projectName'', JString n)])))"
    by (cases pdata; cases pname;
        simp add: object_text_def member_text_def quoteJSONString_def escape_char_def dq_def)+
  have s: "requests (new_events st (snd (updateProject E pid uid None pdata st))) =
     (case js_String E pid of
        Inl t \<Rightarrow> []
      | Inr p \<Rightarrow>
          [\<lparr>url = API_BASE_URL st @ ''/api/projects/'' @ p, http_method = ''PUT'',
            headers = [(''Content-Type'', ''application/json'')],
            body = Some (object_text (member_text ''userId'' uid # given ''projectData'' pdata))\<rparr>])"
    "requests (new_events st (snd (updateProject E pid uid pname None st))) =
     (case js_String E pid of
        Inl t \<Rightarrow> []
      | Inr p \<Rightarrow>
          [\<lparr>url = API_BASE_URL st @ ''/api/projects/'' @ p, http_method = ''PUT'',
            headers = [(''Content-Type'', ''application/json'')],
            body = Some (object_text (member_text ''userId'' uid # given ''projectName'' pname))\<rparr>])"
    unfolding updateProject_requests
    by (cases "js_String E pid"; simp add: r)+
  from s t show ?thesis by (intro conjI)
qed

theorem updateProject_omitted_fields_absent_witness:
  "requests (new_events demo_world (snd (updateProject demo_env (JNumber 1) ''u1'' None (Some ''QQ=='') demo_world))) =
     [\<lparr>url = ''http://localhost:3001/api/projects/1'', http_method = ''PUT'',
       headers = [(''Content-Type'', ''application/json'')],
       body = Some (''{'' @ dq @ ''userId'' @ dq @ '':'' @ dq @ ''u1'' @ dq @ '','' @
                    dq @ ''projectData'' @ dq @ '':'' @ dq @ ''QQ=='' @ dq @ ''}'')\<rparr>]
   \<and> requests (new_events demo_world (snd (updateProject demo_env (JNumber 1) ''u1'' (Some ''Foo'') None demo_world))) =
     [\<lparr>url = ''http://localhost:3001/api/projects/1'', http_method = ''PUT'',
       headers = [(''Content-Type'', ''application/json'')],
       body = Some (''{'' @ dq @ ''userId'' @ dq @ '':'' @ dq @ ''u1'' @ dq @ '','' @
                    dq @ ''projectName'' @ dq @ '':'' @ dq @ ''Foo'' @ dq @ ''}'')\<rparr>]
   \<and> requests (new_events demo_world (snd (updateProject demo_env (JNumber 1) ''u1'' None None demo_world))) =
     [\<lparr>url = ''http://localhost:3001/api/projects/1'', http_method = ''PUT'',
       headers = [(''Content-Type'', ''application/json'')],
       body = Some (''{'' @ dq @ ''userId'' @ dq @ '':'' @ dq @ ''u1'' @ dq @ ''}'')\<rparr>]"
proof -
  have p: "numberToString demo_env 1 = ''1''"
    by (simp add: demo_env_def)
  note e = p demo_world_def object_text_def member_text_def quoteJSONString_def escape_char_def dq_def
  from updateProject_omitted_fields_absent
         [of demo_world demo_env "JNumber 1" "''u1''" "Some ''QQ==''" None, THEN conjunct1]
  have 1: "requests (new_events demo_world (snd (updateProject demo_env (JNumber 1) ''u1'' None (Some ''QQ=='') demo_world))) =
     [\<lparr>url = ''http://localhost:3001/api/projects/1'', http_method = ''PUT'',
       headers = [(''Content-Type'', ''application/json'')],
       body = Some (''{'' @ dq @ ''userId'' @ dq @ '':'' @ dq @ ''u1'' @ dq @ '','' @
                    dq @ ''projectData'' @ dq @ '':'' @ dq @ ''QQ=='' @ dq @ ''}'')\<rparr>]"
    by (simp add: e)
  from updateProject_omitted_fields_absent
         [of demo_world demo_env "JNumber 1" "''u1''" None "Some ''Foo''", THEN conjunct2, THEN conjunct1]
  have 2: "requests (new_events demo_world (snd (updateProject demo_env (JNumber 1) ''u1'' (Some ''Foo'') None demo_world))) =
     [\<lparr>url = ''http://localhost:3001/api/projects/1'', http_method = ''PUT'',
       headers = [(''Content-Type'', ''application/json'')],
       body = Some (''{'' @ dq @ ''userId'' @ dq @ '':'' @ dq @ ''u1'' @ dq @ '','' @
                    dq @ ''projectName'' @ dq @ '':'' @ dq @ ''Foo'' @ dq @ ''}'')\<rparr>]"
    by (simp add: e)
  from updateProject_omitted_fields_absent
         [of demo_world demo_env "JNumber 1" "''u1''" None None, THEN conjunct1]
  have 3: "requests (new_events demo_world (snd (updateProject demo_env (JNumber 1) ''u1'' None None demo_world))) =
     [\<lparr>url = ''http://localhost:3001/api/projects/1'', http_method = ''PUT'',
       headers = [(''Content-Type'', ''application/json'')],
       body = Some (''{'' @ dq @ ''userId'' @ dq @ '':'' @ dq @ ''u1'' @ dq @ ''}'')\<rparr>]"
    by (simp add: e)
  from 1 2 3 show ?thesis by (intro conjI)
qed

section \<open>Transport layer: unsuccessful responses\<close>

lemma throw_api_error_fails:
  "throw_api_error E resp dflt st = (Inl (api_error E resp dflt), st)"
  by (simp add: throw_api_error_def api_error_def io_defs split: sum.splits)

lemma op_failure_not_ok:
  assumes "op_request E (API_BASE_URL st) op = Inr req"
      and "fetch E req (fetch_count st) = Inr resp" and "\<not> ok resp"
  shows "op_failure E op st = Some (api_error E resp (default_message op))"
  using assms
  by (cases op)
     (auto simp add: saveProject_def getUserProjects_def getProject_def updateProject_def deleteProject_def
        do_fetch_def failure_of_def throw_api_error_fails io_defs split: sum.splits)

text \<open>
  Claim C4, as amended. For each of the five operations, when the request could be built
  and the response has an unsuccessful status: if the error body cannot be parsed, the
  call fails with the parse error itself; if it parses to \<^verbatim>\<open>null\<close>, the call fails with the
  TypeError of reading its \<^verbatim>\<open>error\<close> member; if its \<^verbatim>\<open>error\<close> member is absent or falsy, the
  call fails with an \<^verbatim>\<open>Error\<close> carrying the operation's default message; if the member is
  truthy, the call fails with an \<^verbatim>\<open>Error\<close> carrying the member's string form (the server
  message itself when it is a non-empty string) or, when the member cannot be converted
  to a string, with the TypeError of the conversion.
\<close>

theorem api_error_message:
  assumes "op_request E (API_BASE_URL st) op = Inr req"
      and "fetch E req (fetch_count st) = Inr resp" and "\<not> ok resp"
  shows "(\<forall>x. json resp = Inl x \<longrightarrow> op_failure E op st = Some (External x))
       \<and> (\<forall>v t. json resp = Inr v \<and> js_get v ''error'' = Inl t \<longrightarrow> op_failure E op st = Some t)
       \<and> (\<forall>v m. json resp = Inr v \<and> js_get v ''error'' = Inr m \<and> \<not> truthy m \<longrightarrow>
             op_failure E op st = Some (Error (default_message op)))
       \<and> (\<forall>v m s. json resp = Inr v \<and> js_get v ''error'' = Inr m \<and> truthy m \<and> js_String E m = Inr s \<longrightarrow>
             op_failure E op st = Some (Error s))
       \<and> (\<forall>v s. json resp = Inr v \<and> js_get v ''error'' = Inr (JString s) \<and> s \<noteq> [] \<longrightarrow>
             op_failure E op st = Some (Error s))
       \<and> (\<forall>v m. json resp = Inr v \<and> js_get v ''error'' = Inr m \<and> truthy m \<and> \<not> convertible E m \<longrightarrow>
             op_failure E op st = Some cannot_convert)"
proof -
  note f = op_failure_not_ok [OF assms]
  have 1: "\<forall>x. json resp = Inl x \<longrightarrow> op_failure E op st = Some (External x)"
    by (simp add: f api_error_def)
  have 2: "\<forall>v t. json resp = Inr v \<and> js_get v ''error'' = Inl t \<longrightarrow> op_failure E op st = Some t"
    by (simp add: f api_error_def)
  have 3: "\<forall>v m. json resp = Inr v \<and> js_get v ''error'' = Inr m \<and> \<not> truthy m \<longrightarrow>
             op_failure E op st = Some (Error (default_message op))"
    by (simp add: f api_error_def js_or_def)
  have 4: "\<forall>v m s. json resp = Inr v \<and> js_get v ''error'' = Inr m \<and> truthy m \<and> js_String E m = Inr s \<longrightarrow>
             op_failure E op st = Some (Error s)"
    by (simp add: f api_error_def js_or_def)
  have 5: "\<forall>v s. json resp = Inr v \<and> js_get v ''error'' = Inr (JString s) \<and> s \<noteq> [] \<longrightarrow>
             op_failure E op st = Some (Error s)"
    by (simp add: f api_error_def js_or_def)
  have 6: "\<forall>v m. json resp = Inr v \<and> js_get v ''error'' = Inr m \<and> truthy m \<and> \<not> convertible E m \<longrightarrow>
             op_failure E op st = Some cannot_convert"
  proof (intro allI impI)
    fix v m
    assume a: "json resp = Inr v \<and> js_get v ''error'' = Inr m \<and> truthy m \<and> \<not> convertible E m"
    then obtain t where t: "js_String E m = Inl t"
      by (cases "js_String E m") (simp_all add: convertible_def)
    with conversion_error [OF t] a show "op_failure E op st = Some cannot_convert"
      by (simp add: f api_error_def js_or_def)
  qed
  from 1 2 3 4 5 6 show ?thesis by (intro conjI)
qed

theorem api_error_message_witness:
  "op_failure notfound_env (GetProject (JNumber 3) ''u1'') demo_world = Some (Error ''Project not found'')
   \<and> op_failure unexplained_env (DeleteProject (JNumber 3) ''u1'') demo_world =
       Some (Error ''Failed to delete project'')"
proof -
  let ?resp = "\<lparr>ok = False, json = Inr (JObject [(''error'', JString ''Project not found'')])\<rparr>"
  let ?req = "getProject_request ''http://localhost:3001'' ''3'' ''u1''"
  have h0: "op_request notfound_env (API_BASE_URL demo_world) (GetProject (JNumber 3) ''u1'') = Inr ?req"
    by (simp add: notfound_env_def demo_env_def demo_world_def)
  have h1: "fetch notfound_env ?req (fetch_count demo_world) = Inr ?resp"
    by (simp add: notfound_env_def)
  have h2: "\<not> ok ?resp" by simp
  let ?resp' = "\<lparr>ok = False, json = Inr (JObject [(''error'', JString [])])\<rparr>"
  let ?req' = "deleteProject_request ''http://localhost:3001'' ''3'' ''u1''"
  have g0: "op_request unexplained_env (API_BASE_URL demo_world) (DeleteProject (JNumber 3) ''u1'') = Inr ?req'"
    by (simp add: unexplained_env_def demo_env_def demo_world_def)
  have g1: "fetch unexplained_env ?req' (fetch_count demo_world) = Inr ?resp'"
    by (simp add: unexplained_env_def)
  have g2: "\<not> ok ?resp'" by simp
  from api_error_message [OF h0 h1 h2, THEN conjunct2, THEN conjunct2, THEN conjunct2, THEN conjunct2,
      THEN conjunct1, rule_format, of "JObject [(''error'', JString ''Project not found'')]" "''Project not found''"]
  have 1: "op_failure notfound_env (GetProject (JNumber 3) ''u1'') demo_world = Some (Error ''Project not found'')"
    by simp
  from api_error_message [OF g0 g1 g2, THEN conjunct2, THEN conjunct2, THEN conjunct1, rule_format,
      of "JObject [(''error'', JString [])]" "JString []"]
  have 2: "op_failure unexplained_env (DeleteProject (JNumber 3) ''u1'') demo_world =
       Some (Error ''Failed to delete project'')"
    by simp
  from 1 2 show ?thesis by (intro conjI)
qed

text \<open>
  Claim C4 as stated fails in three ways. When the error body is not JSON, saveProject
  fails with the parse error, whose message is not the default message. When the error
  body is \<^verbatim>\<open>null\<close>, and when its \<^verbatim>\<open>error\<close> member is an object that cannot be converted to a
  string, getProject fails with a TypeError of the runtime, which carries neither the
  server's message nor the default message.
\<close>

theorem api_error_unparsed_body_counterexample:
  "op_failure htmlerr_env (SaveProject ''u1'' ''Foo'' ''QQ=='') demo_world =
     Some (External (ErrorInstance ''Unexpected token < in JSON at position 0''))
   \<and> error_message htmlerr_env (External (ErrorInstance ''Unexpected token < in JSON at position 0''))
       \<noteq> Inr (default_message (SaveProject ''u1'' ''Foo'' ''QQ==''))
   \<and> op_failure nullbody_env (GetProject (JNumber 3) ''u1'') demo_world =
       Some (TypeError ''Cannot read properties of null (reading 'error')'')
   \<and> op_failure opaque_message_env (GetProject (JNumber 3) ''u1'') demo_world = Some cannot_convert"
  by (simp add: saveProject_def getProject_def do_fetch_def throw_api_error_def failure_of_def
      htmlerr_env_def nullbody_env_def opaque_message_env_def demo_env_def opaque_def js_or_def io_defs)

section \<open>Events appended by an action\<close>

lemma appends_return: "appends P (return v)"
  and appends_throw: "appends P (throw e)"
  and appends_lift: "appends P (lift r)"
  and appends_toString: "appends P (toString E value)"
  and appends_external: "appends P (external x)"
  and appends_read: "appends P read_API_BASE_URL"
  and appends_getHeaders: "appends P getHeaders"
  by (simp_all add: appends_def io_defs)

lemma appends_emit: "P ev \<Longrightarrow> appends P (emit ev)"
  by (simp add: appends_def emit_def)

lemma appends_do_fetch: "P (Fetch req) \<Longrightarrow> appends P (do_fetch E req)"
  by (simp add: appends_def do_fetch_def)

lemma appends_do_install: "P (Install h txt) \<Longrightarrow> appends P (do_install E h txt)"
  by (simp add: appends_def do_install_def split: sum.splits)

lemma appends_bind:
  assumes "appends P m" and "\<And>v. appends P (f v)"
  shows "appends P (bind m f)"
  unfolding appends_def
proof
  fix st
  obtain r st1 where m: "m st = (r, st1)" by (cases "m st")
  from assms(1) m obtain evs1 where e1: "trace st1 = trace st @ evs1" "list_all P evs1"
    unfolding appends_def by (metis snd_conv)
  show "\<exists>evs. trace (snd (bind m f st)) = trace st @ evs \<and> list_all P evs"
  proof (cases r)
    case (Inl e)
    with m e1 show ?thesis by (simp add: bind_def)
  next
    case (Inr v)
    from assms(2) [of v] obtain evs2 where
      "trace (snd (f v st1)) = trace st1 @ evs2" "list_all P evs2"
      unfolding appends_def by blast
    with Inr m e1 show ?thesis by (simp add: bind_def)
  qed
qed

lemma appends_try_catch:
  assumes "appends P m" and "\<And>e. appends P (h e)"
  shows "appends P (try_catch m h)"
  unfolding appends_def
proof
  fix st
  obtain r st1 where m: "m st = (r, st1)" by (cases "m st")
  from assms(1) m obtain evs1 where e1: "trace st1 = trace st @ evs1" "list_all P evs1"
    unfolding appends_def by (metis snd_conv)
  show "\<exists>evs. trace (snd (try_catch m h st)) = trace st @ evs \<and> list_all P evs"
  proof (cases r)
    case (Inr v)
    with m e1 show ?thesis by (simp add: try_catch_def)
  next
    case (Inl e)
    from assms(2) [of e] obtain evs2 where
      "trace (snd (h e st1)) = trace st1 @ evs2" "list_all P evs2"
      unfolding appends_def by blast
    with Inl m e1 show ?thesis by (simp add: try_catch_def)
  qed
qed

lemma appends_if: "appends P a \<Longrightarrow> appends P b \<Longrightarrow> appends P (if c then a else b)"
  by simp

lemma appends_case_option:
  "appends P a \<Longrightarrow> (\<And>x. appends P (b x)) \<Longrightarrow> appends P (case_option a b x)"
  by (cases x) simp_all

lemma appends_case_prod: "(\<And>a b. appends P (f a b)) \<Longrightarrow> appends P (case_prod f p)"
  by (cases p) simp

lemmas appends_intros =
  appends_return appends_throw appends_lift appends_toString appends_external appends_read
  appends_getHeaders appends_emit appends_do_fetch appends_do_install appends_bind appends_try_catch
  appends_if appends_case_option appends_case_prod

lemma appendsD:
  "appends P m \<Longrightarrow> m st = (r, st') \<Longrightarrow> \<exists>evs. trace st' = trace st @ evs \<and> list_all P evs"
  unfolding appends_def by (metis snd_conv)

lemma appends_readFormat:
  "(\<And>t a. P (Console LogError t a)) \<Longrightarrow> appends P (readFormat E pd)"
  unfolding readFormat_def by (intro appends_intros) simp_all

lemma appends_installProject:
  "(\<And>l t a. P (Console l t a)) \<Longrightarrow> (\<And>h t. P (Install h t)) \<Longrightarrow> P RefreshWorkspace
     \<Longrightarrow> appends P (installProject E cd txt header cfg)"
  unfolding installProject_def by (intro appends_intros) simp_all

lemma appends_import_body:
  "(\<And>l t a. P (Console l t a)) \<Longrightarrow> (\<And>h t. P (Install h t)) \<Longrightarrow> P RefreshWorkspace
     \<Longrightarrow> appends P (import_body E cd)"
  unfolding import_body_def
  by (intro appends_intros appends_readFormat appends_installProject) simp_all



section \<open>Project importer: propagation of errors\<close>

lemma importCloudProject_unnamed:
  "js_String E (projectName cd) = Inl t \<Longrightarrow> importCloudProject E cd st = (Inl t, st)"
  by (simp add: importCloudProject_def io_defs)

lemma importCloudProject_caught:
  assumes "js_String E (projectName cd) = Inr n"
      and "import_body E cd (st\<lparr>trace := trace st @ [importing cd]\<rparr>) = (Inl e, st')"
      and "error_message E e = Inr msg"
  shows "importCloudProject E cd st = (Inl e, st'\<lparr>trace := trace st' @ import_failed cd e msg\<rparr>)"
  using assms by (simp add: importCloudProject_def importing_def import_failed_def io_defs)

lemma importCloudProject_escaped:
  assumes "js_String E (projectName cd) = Inr n"
      and "import_body E cd (st\<lparr>trace := trace st @ [importing cd]\<rparr>) = (Inl e, st')"
      and "error_message E e = Inl t"
  shows "importCloudProject E cd st = (Inl t, st')"
  using assms by (simp add: importCloudProject_def importing_def io_defs)

lemma importCloudProject_returned:
  assumes "js_String E (projectName cd) = Inr n"
      and "import_body E cd (st\<lparr>trace := trace st @ [importing cd]\<rparr>) = (Inr b, st')"
  shows "importCloudProject E cd st = (Inr b, st')"
  using assms by (simp add: importCloudProject_def importing_def io_defs)








section \<open>Project importer: format validation\<close>

lemma js_get_defined: "\<not> nullish v \<Longrightarrow> js_get v k = Inr (js_opt_get v k)"
  by (cases v) (simp_all add: nullish_def js_opt_get_def)

lemma js_get_nullish: "nullish v \<Longrightarrow> \<exists>m. js_get v k = Inl (TypeError m)"
  by (cases v) (simp_all add: nullish_def)

lemma formats_differ: "unknown_format \<noteq> missing_config"
  by (simp add: unknown_format_def missing_config_def)

lemma js_get_not_Error [simp]: "js_get v k \<noteq> Inl (Error m)"
  by (cases v) simp_all

lemma js_String_not_Error [simp]: "js_String E v \<noteq> Inl (Error m)"
  using conversion_error [of E v "Error m"] by (auto simp add: cannot_convert_def)

lemma readFormat_nullish:
  "nullish pd \<Longrightarrow> \<exists>m. readFormat E pd st = (Inl (TypeError m), st)"
  using js_get_nullish [of pd "''source''"] by (auto simp add: readFormat_def io_defs)

lemma readFormat_A:
  assumes "\<not> nullish pd" and "shape_A pd"
  shows "readFormat E pd st =
     (case JSON_parse E (string_value (js_opt_get pd ''source'')) of
        Inl x \<Rightarrow> (Inl (External x), st)
      | Inr files \<Rightarrow>
          (case js_get files CONFIG_NAME of
             Inl e \<Rightarrow> (Inl e, st)
           | Inr cfg \<Rightarrow> if truthy cfg then (Inr (files, js_opt_get pd ''meta'', cfg), st)
                        else (Inl (Error missing_config), st)))"
proof -
  have "js_String E (js_opt_get pd ''source'') = Inr (string_value (js_opt_get pd ''source''))"
    using assms(2) by (simp add: shape_A_def string_convertible)
  with assms(2) js_get_defined [OF assms(1)] show ?thesis
    by (simp add: readFormat_def shape_A_def io_defs split: sum.splits)
qed

lemma readFormat_B:
  assumes "\<not> nullish pd" and "\<not> shape_A pd" and "shape_B pd"
  shows "readFormat E pd st =
     (case js_get (js_opt_get pd ''text'') CONFIG_NAME of
        Inl e \<Rightarrow> (Inl e, st)
      | Inr cfg \<Rightarrow> if truthy cfg then (Inr (js_opt_get pd ''text'', js_opt_get pd ''header'', cfg), st)
                   else (Inl (Error missing_config), st))"
  using assms(2,3) js_get_defined [OF assms(1)]
  by (auto simp add: readFormat_def shape_A_def shape_B_def io_defs split: sum.splits)

lemma readFormat_neither:
  assumes "\<not> nullish pd" and "\<not> shape_A pd" and "\<not> shape_B pd"
  shows "readFormat E pd st =
     (Inl (Error unknown_format), st\<lparr>trace := trace st @ unknown_format_log pd\<rparr>)"
  using assms(2,3) js_get_defined [OF assms(1)]
  by (auto simp add: readFormat_def shape_A_def shape_B_def unknown_format_log_def io_defs)

lemma shape_B_defined: "shape_B pd \<Longrightarrow> \<not> nullish (js_opt_get pd ''text'')"
  by (auto simp add: shape_B_def nullish_def)

lemma readFormat_unknown:
  "(fst (readFormat E pd st) = Inl (Error unknown_format)) = (\<not> nullish pd \<and> \<not> shape_A pd \<and> \<not> shape_B pd)"
proof (cases "nullish pd")
  case True
  with readFormat_nullish [OF True, of E st] show ?thesis by auto
next
  case False
  show ?thesis
  proof (cases "shape_A pd")
    case True
    with False formats_differ show ?thesis
      by (auto simp add: readFormat_A split: sum.splits)
  next
    case notA: False
    show ?thesis
    proof (cases "shape_B pd")
      case True
      with False notA formats_differ show ?thesis
        by (auto simp add: readFormat_B split: sum.splits)
    next
      case notB: False
      with False notA show ?thesis by (simp add: readFormat_neither)
    qed
  qed
qed

lemma readFormat_missing:
  "(fst (readFormat E pd st) = Inl (Error missing_config)) =
     (\<not> nullish pd \<and>
       (case file_map E pd of
          None \<Rightarrow> False
        | Some files \<Rightarrow> \<not> nullish files \<and> \<not> truthy (js_opt_get files CONFIG_NAME)))"
proof (cases "nullish pd")
  case True
  with readFormat_nullish [OF True, of E st] show ?thesis by auto
next
  case False
  show ?thesis
  proof (cases "shape_A pd")
    case True
    show ?thesis
    proof (cases "JSON_parse E (string_value (js_opt_get pd ''source''))")
      case (Inl x)
      with False True show ?thesis by (simp add: readFormat_A file_map_def)
    next
      case (Inr files)
      show ?thesis
      proof (cases "nullish files")
        case nf: True
        then obtain m where "js_get files CONFIG_NAME = Inl (TypeError m)"
          using js_get_nullish by blast
        with False True Inr nf show ?thesis by (simp add: readFormat_A file_map_def)
      next
        case nf: False
        with False True Inr js_get_defined [OF nf] show ?thesis
          by (simp add: readFormat_A file_map_def)
      qed
    qed
  next
    case notA: False
    show ?thesis
    proof (cases "shape_B pd")
      case True
      with False notA js_get_defined [OF shape_B_defined [OF True]] shape_B_defined [OF True]
      show ?thesis by (simp add: readFormat_B file_map_def)
    next
      case notB: False
      with False notA formats_differ show ?thesis
        by (auto simp add: readFormat_neither file_map_def)
    qed
  qed
qed

lemma readFormat_Error:
  assumes "readFormat E pd st = (Inl (Error m), st')"
  shows "(m = unknown_format \<and> st' = st\<lparr>trace := trace st @ unknown_format_log pd\<rparr>)
       \<or> (m = missing_config \<and> st' = st)"
proof (cases "nullish pd")
  case True
  with readFormat_nullish [OF True, of E st] assms show ?thesis by auto
next
  case False
  show ?thesis
  proof (cases "shape_A pd")
    case True
    with False assms show ?thesis
      by (auto simp add: readFormat_A split: sum.splits if_splits)
  next
    case notA: False
    show ?thesis
    proof (cases "shape_B pd")
      case True
      with False notA assms show ?thesis
        by (auto simp add: readFormat_B split: sum.splits if_splits)
    next
      case notB: False
      with False notA assms show ?thesis by (simp add: readFormat_neither)
    qed
  qed
qed

lemma installProject_no_Error: "fst (installProject E cd files hdr cfg st) \<noteq> Inl (Error m)"
  by (auto simp add: installProject_def do_install_def io_defs split: option.splits sum.splits)

lemma import_body_Error:
  "(import_body E cd st = (Inl (Error m), st')) =
     (\<exists>pd. parsePayload E cd = Inr pd \<and> readFormat E pd st = (Inl (Error m), st'))"
proof (cases "parsePayload E cd")
  case (Inl x)
  then show ?thesis by (simp add: import_body_def io_defs)
next
  case (Inr pd)
  show ?thesis
  proof (cases "readFormat E pd st")
    case (Pair res st1)
    show ?thesis
    proof (cases res)
      case (Inl e)
      with Inr Pair show ?thesis by (auto simp add: import_body_def io_defs)
    next
      case r: (Inr r)
      obtain files hdr cfg where "r = (files, hdr, cfg)" by (cases r)
      with Inr Pair r installProject_no_Error [of E cd files hdr cfg st1 m]
      show ?thesis by (auto simp add: import_body_def io_defs)
    qed
  qed
qed

lemma importCloudProject_Error_run:
  assumes "fst (importCloudProject E cd st) = Inl (Error m)"
  obtains n st' where "js_String E (projectName cd) = Inr n"
    and "import_body E cd (st\<lparr>trace := trace st @ [importing cd]\<rparr>) = (Inl (Error m), st')"
    and "snd (importCloudProject E cd st) = st'\<lparr>trace := trace st' @ import_failed cd (Error m) m\<rparr>"
proof -
  let ?st1 = "st\<lparr>trace := trace st @ [importing cd]\<rparr>"
  obtain n where n: "js_String E (projectName cd) = Inr n"
    using assms importCloudProject_unnamed [of E cd _ st]
    by (cases "js_String E (projectName cd)") simp_all
  obtain r st' where body: "import_body E cd ?st1 = (r, st')" by (cases "import_body E cd ?st1")
  show ?thesis
  proof (cases r)
    case (Inr b)
    with importCloudProject_returned [OF n] body assms show ?thesis by simp
  next
    case (Inl e)
    show ?thesis
    proof (cases "error_message E e")
      case t: (Inl t)
      with importCloudProject_escaped [OF n _ t] body Inl message_error [OF t] assms
      show ?thesis by (simp add: cannot_convert_def)
    next
      case (Inr msg)
      with importCloudProject_caught [OF n _ Inr] body Inl assms
      have "e = Error m" "snd (importCloudProject E cd st) = st'\<lparr>trace := trace st' @ import_failed cd e msg\<rparr>"
        by simp_all
      with Inr body Inl n that show ?thesis by simp
    qed
  qed
qed

lemma importCloudProject_Error:
  "(fst (importCloudProject E cd st) = Inl (Error m)) =
     (convertible E (projectName cd) \<and>
       (\<exists>pd. parsePayload E cd = Inr pd \<and> fst (readFormat E pd st) = Inl (Error m)))"
proof
  let ?st1 = "st\<lparr>trace := trace st @ [importing cd]\<rparr>"
  assume "fst (importCloudProject E cd st) = Inl (Error m)"
  then obtain n st' where n: "js_String E (projectName cd) = Inr n"
    and body: "import_body E cd ?st1 = (Inl (Error m), st')"
    by (rule importCloudProject_Error_run)
  from body obtain pd where "parsePayload E cd = Inr pd" "readFormat E pd ?st1 = (Inl (Error m), st')"
    by (auto simp add: import_body_Error)
  then have "parsePayload E cd = Inr pd \<and> fst (readFormat E pd st) = Inl (Error m)"
    using readFormat_fst [of E pd st ?st1] by simp
  with n show "convertible E (projectName cd) \<and>
       (\<exists>pd. parsePayload E cd = Inr pd \<and> fst (readFormat E pd st) = Inl (Error m))"
    by (auto simp add: convertible_def)
next
  let ?st1 = "st\<lparr>trace := trace st @ [importing cd]\<rparr>"
  assume a: "convertible E (projectName cd) \<and>
       (\<exists>pd. parsePayload E cd = Inr pd \<and> fst (readFormat E pd st) = Inl (Error m))"
  then obtain n where n: "js_String E (projectName cd) = Inr n"
    using convertibleD by blast
  from a obtain pd where pd: "parsePayload E cd = Inr pd" "fst (readFormat E pd st) = Inl (Error m)"
    by blast
  then have "fst (readFormat E pd ?st1) = Inl (Error m)"
    using readFormat_fst [of E pd ?st1 st] by simp
  then obtain st' where "readFormat E pd ?st1 = (Inl (Error m), st')"
    by (cases "readFormat E pd ?st1") simp
  with pd(1) have "import_body E cd ?st1 = (Inl (Error m), st')"
    by (auto simp add: import_body_Error)
  from importCloudProject_caught [OF n this, of m]
  show "fst (importCloudProject E cd st) = Inl (Error m)" by simp
qed

text \<open>
  Claim C3, as amended. For a project name that can be converted to a string (every
  string can), importCloudProject fails with an InvalidFormat error in exactly two cases:
  (1) the payload is not \<^verbatim>\<open>null\<close> and has neither a non-empty string \<^verbatim>\<open>source\<close> nor a non-null
  object (or array) \<^verbatim>\<open>text\<close>; (2) the payload matches one of the two shapes and yields a file
  map (not \<^verbatim>\<open>null\<close>) whose entry under the reserved configuration file name is absent or
  falsy (an empty string, for one). For a project name that cannot be converted it never
  does. Neither condition depends on the local headers, and in both cases the run only
  writes to the console and the notification sink: no installation request, the local
  headers as they were.
\<close>

theorem invalid_format_cases:
  "(fst (importCloudProject E cd st) = Inl (Error unknown_format)) =
     (convertible E (projectName cd) \<and> unrecognised E cd)
 \<and> (fst (importCloudProject E cd st) = Inl (Error missing_config)) =
     (convertible E (projectName cd) \<and> lacks_config E cd)
 \<and> (\<forall>m. fst (importCloudProject E cd st) = Inl (Error m) \<longrightarrow>
       (m = unknown_format \<or> m = missing_config)
       \<and> (\<exists>evs. snd (importCloudProject E cd st) = st\<lparr>trace := trace st @ evs\<rparr>
              \<and> list_all only_reports evs))"
proof (intro conjI allI impI)
  show "(fst (importCloudProject E cd st) = Inl (Error unknown_format)) =
     (convertible E (projectName cd) \<and> unrecognised E cd)"
    by (cases "parsePayload E cd")
       (simp_all add: importCloudProject_Error unrecognised_def readFormat_unknown)
  show "(fst (importCloudProject E cd st) = Inl (Error missing_config)) =
     (convertible E (projectName cd) \<and> lacks_config E cd)"
    by (cases "parsePayload E cd")
       (simp_all add: importCloudProject_Error lacks_config_def readFormat_missing)
next
  fix m
  assume f: "fst (importCloudProject E cd st) = Inl (Error m)"
  let ?st1 = "st\<lparr>trace := trace st @ [importing cd]\<rparr>"
  from f obtain n st' where body: "import_body E cd ?st1 = (Inl (Error m), st')"
    and fin: "snd (importCloudProject E cd st) = st'\<lparr>trace := trace st' @ import_failed cd (Error m) m\<rparr>"
    by (rule importCloudProject_Error_run)
  then obtain pd where pd: "parsePayload E cd = Inr pd" "readFormat E pd ?st1 = (Inl (Error m), st')"
    by (auto simp add: import_body_Error)
  note r = readFormat_Error [OF pd(2)]
  from r show "m = unknown_format \<or> m = missing_config" by blast
  from r show "\<exists>evs. snd (importCloudProject E cd st) = st\<lparr>trace := trace st @ evs\<rparr>
              \<and> list_all only_reports evs"
  proof
    assume "m = unknown_format \<and> st' = ?st1\<lparr>trace := trace ?st1 @ unknown_format_log pd\<rparr>"
    with fin have "snd (importCloudProject E cd st) =
       st\<lparr>trace := trace st @ (importing cd # unknown_format_log pd @ import_failed cd (Error m) m)\<rparr>"
      by simp
    moreover have "list_all only_reports (importing cd # unknown_format_log pd @ import_failed cd (Error m) m)"
      by (simp add: importing_def unknown_format_log_def import_failed_def)
    ultimately show ?thesis by blast
  next
    assume "m = missing_config \<and> st' = ?st1"
    with fin have "snd (importCloudProject E cd st) =
       st\<lparr>trace := trace st @ (importing cd # import_failed cd (Error m) m)\<rparr>"
      by simp
    moreover have "list_all only_reports (importing cd # import_failed cd (Error m) m)"
      by (simp add: importing_def import_failed_def)
    ultimately show ?thesis by blast
  qed
qed

lemma blank_payload:
  "parsePayload demo_env blank_data = Inr (JObject [(''text'', JObject [(''pxt.json'', JString [])])])"
  by (simp add: blank_data_def demo_parsePayload) (simp add: demo_parse_def)

lemma other_payload:
  "parsePayload demo_env other_data = Inr (JObject [(''files'', JArray [])])"
  by (simp add: other_data_def demo_parsePayload) (simp add: demo_parse_def)

lemma legacy_payload:
  "parsePayload demo_env legacy_data = Inr (JObject [(''source'', JString ''files''), (''meta'', JObject [])])"
  by (simp add: legacy_data_def demo_parsePayload) (simp add: demo_parse_def)

lemma null_payload: "parsePayload demo_env null_data = Inr JNull"
  by (simp add: null_data_def demo_parsePayload) (simp add: demo_parse_def)

lemma nosource_payload:
  "parsePayload demo_env nosource_data = Inr (JObject [(''source'', JString [])])"
  by (simp add: nosource_data_def demo_parsePayload) (simp add: demo_parse_def)

lemma nullsource_payload:
  "parsePayload demo_env nullsource_data = Inr (JObject [(''source'', JString ''null'')])"
  by (simp add: nullsource_data_def demo_parsePayload) (simp add: demo_parse_def)

lemma demo_JSON_parse: "JSON_parse demo_env = demo_parse"
  by (simp add: demo_env_def)

theorem invalid_format_cases_witness:
  "fst (importCloudProject demo_env other_data demo_world) = Inl (Error unknown_format)
 \<and> fst (importCloudProject demo_env blank_data demo_world) = Inl (Error missing_config)
 \<and> fst (importCloudProject demo_env legacy_data demo_world) = Inl (Error missing_config)
 \<and> (\<exists>evs. snd (importCloudProject demo_env blank_data demo_world) =
        demo_world\<lparr>trace := trace demo_world @ evs\<rparr> \<and> list_all only_reports evs)"
proof -
  have c: "convertible demo_env (projectName other_data)" "convertible demo_env (projectName blank_data)"
    "convertible demo_env (projectName legacy_data)"
    by (simp_all add: convertible_def other_data_def blank_data_def legacy_data_def)
  have u: "convertible demo_env (projectName other_data) \<and> unrecognised demo_env other_data"
    by (simp add: c unrecognised_def other_payload nullish_def shape_A_def shape_B_def js_opt_get_def)
  have l: "convertible demo_env (projectName blank_data) \<and> lacks_config demo_env blank_data"
    by (simp add: c lacks_config_def blank_payload nullish_def file_map_def shape_A_def shape_B_def
        js_opt_get_def CONFIG_NAME_def)
  have g: "convertible demo_env (projectName legacy_data) \<and> lacks_config demo_env legacy_data"
    by (simp add: c lacks_config_def legacy_payload nullish_def file_map_def shape_A_def
        js_opt_get_def CONFIG_NAME_def demo_JSON_parse)
       (simp add: demo_parse_def nullish_def js_opt_get_def CONFIG_NAME_def)
  from invalid_format_cases [of demo_env other_data demo_world] u
  have 1: "fst (importCloudProject demo_env other_data demo_world) = Inl (Error unknown_format)"
    by blast
  from invalid_format_cases [of demo_env blank_data demo_world] l
  have 2: "fst (importCloudProject demo_env blank_data demo_world) = Inl (Error missing_config)"
    by blast
  from invalid_format_cases [of demo_env legacy_data demo_world] g
  have 3: "fst (importCloudProject demo_env legacy_data demo_world) = Inl (Error missing_config)"
    by blast
  with invalid_format_cases [of demo_env blank_data demo_world] 1 2 show ?thesis by blast
qed

text \<open>
  Claim C3 as stated fails in each of these runs. A payload whose \<^verbatim>\<open>text\<close> is an object with
  an entry under the reserved name that holds the empty string: the file map has the
  entry, and the import fails with InvalidFormat. A payload with a string-valued \<^verbatim>\<open>source\<close>
  that is empty: the import fails with InvalidFormat for an unknown shape. A payload that
  is \<^verbatim>\<open>null\<close>, and a payload whose \<^verbatim>\<open>source\<close> parses to \<^verbatim>\<open>null\<close>: neither has the fields or the
  entry, and the import fails with a TypeError, not with InvalidFormat. A payload of
  unknown shape under a project name that cannot be converted to a string: the import
  fails with a TypeError before it reads the payload.
\<close>

theorem invalid_format_empty_config_counterexample:
  "fst (importCloudProject demo_env blank_data demo_world) = Inl (Error missing_config)
 \<and> parsePayload demo_env blank_data = Inr (JObject [(''text'', JObject [(''pxt.json'', JString [])])])
 \<and> is_object (js_opt_get (JObject [(''text'', JObject [(''pxt.json'', JString [])])]) ''text'')
 \<and> has_entry (js_opt_get (JObject [(''text'', JObject [(''pxt.json'', JString [])])]) ''text'') CONFIG_NAME
 \<and> fst (importCloudProject demo_env nosource_data demo_world) = Inl (Error unknown_format)
 \<and> parsePayload demo_env nosource_data = Inr (JObject [(''source'', JString [])])
 \<and> typeof (js_opt_get (JObject [(''source'', JString [])]) ''source'') = ''string''
 \<and> parsePayload demo_env null_data = Inr JNull
 \<and> fst (importCloudProject demo_env null_data demo_world) =
     Inl (TypeError ''Cannot read properties of null (reading 'source')'')
 \<and> parsePayload demo_env nullsource_data = Inr (JObject [(''source'', JString ''null'')])
 \<and> fst (importCloudProject demo_env nullsource_data demo_world) =
     Inl (TypeError ''Cannot read properties of null (reading 'pxt.json')'')
 \<and> parsePayload demo_env opaque_data = Inr (JObject [(''files'', JArray [])])
 \<and> unrecognised demo_env opaque_data
 \<and> fst (importCloudProject demo_env opaque_data demo_world) = Inl cannot_convert"
proof -
  have p: "parsePayload demo_env opaque_data = Inr (JObject [(''files'', JArray [])])"
    by (simp add: opaque_data_def demo_parsePayload) (simp add: demo_parse_def)
  have n: "js_String demo_env (projectName blank_data) = Inr ''Blank''"
    "js_String demo_env (projectName nosource_data) = Inr ''Empty''"
    "js_String demo_env (projectName null_data) = Inr ''Nil''"
    "js_String demo_env (projectName nullsource_data) = Inr ''Void''"
    by (simp_all add: blank_data_def nosource_data_def null_data_def nullsource_data_def)
  have 1: "fst (importCloudProject demo_env blank_data demo_world) = Inl (Error missing_config)"
    by (simp add: importCloudProject_def import_body_def blank_payload readFormat_def io_defs
        js_opt_get_def CONFIG_NAME_def n)
  have 2: "fst (importCloudProject demo_env nosource_data demo_world) = Inl (Error unknown_format)"
    by (simp add: importCloudProject_def import_body_def nosource_payload readFormat_def io_defs n)
  have 3: "fst (importCloudProject demo_env null_data demo_world) =
     Inl (TypeError ''Cannot read properties of null (reading 'source')'')"
    by (simp add: importCloudProject_def import_body_def null_payload readFormat_def io_defs n)
  have 4: "fst (importCloudProject demo_env nullsource_data demo_world) =
     Inl (TypeError ''Cannot read properties of null (reading 'pxt.json')'')"
    by (simp add: importCloudProject_def import_body_def nullsource_payload readFormat_def io_defs
        demo_JSON_parse demo_parse_def CONFIG_NAME_def n)
  have 5: "unrecognised demo_env opaque_data"
    by (simp add: unrecognised_def p nullish_def shape_A_def shape_B_def js_opt_get_def)
  have 6: "fst (importCloudProject demo_env opaque_data demo_world) = Inl cannot_convert"
    by (simp add: importCloudProject_def opaque_data_def opaque_def io_defs)
  from 1 2 3 4 5 6 p blank_payload nosource_payload null_payload nullsource_payload
  show ?thesis by (simp add: js_opt_get_def CONFIG_NAME_def)
qed

section \<open>Sync orchestrator: the loop\<close>

lemma appends_mono: "appends P m \<Longrightarrow> (\<And>ev. P ev \<Longrightarrow> Q ev) \<Longrightarrow> appends Q m"
  unfolding appends_def by (metis (mono_tags, lifting) list.pred_mono_strong)

lemma appends_throw_api_error: "appends P (throw_api_error E resp dflt)"
  unfolding throw_api_error_def by (intro appends_intros)

lemma appends_getProject: "appends console_or_fetch (getProject E pid uid)"
  unfolding getProject_def by (intro appends_intros appends_throw_api_error) simp_all

lemma appends_getUserProjects: "appends console_or_fetch (getUserProjects E uid)"
  unfolding getUserProjects_def by (intro appends_intros appends_throw_api_error) simp_all

lemma appends_getCurrentUserId: "appends P (getCurrentUserId E)"
  unfolding getCurrentUserId_def by (intro appends_intros)

lemma appends_importCloudProject: "appends loop_event (importCloudProject E cd)"
  unfolding importCloudProject_def by (intro appends_intros appends_import_body) simp_all

lemma appends_sync_item: "appends loop_event (sync_item E uid x)"
  unfolding sync_item_def
  by (intro appends_intros appends_importCloudProject appends_mono [OF appends_getProject])
     (auto elim: console_or_fetch.elims)

lemma appends_sync_step: "appends loop_event (sync_step E uid x i s)"
  unfolding sync_step_def by (intro appends_intros appends_sync_item) simp_all

lemma sync_loop_Cons:
  "sync_loop E uid (x # xs) i s = bind (sync_step E uid x i s) (\<lambda>(i', s'). sync_loop E uid xs i' s')"
  by (rule ext) (simp add: bind_def split: prod.splits sum.splits)

lemma sync_loop_Nil: "sync_loop E uid [] i s = return (i, s)"
  by (rule ext) (simp add: return_def)

lemma appends_sync_loop: "appends loop_event (sync_loop E uid xs i s)"
proof (induction xs arbitrary: i s)
  case Nil
  show ?case by (simp only: sync_loop_Nil appends_return)
next
  case (Cons x xs)
  show ?case
    unfolding sync_loop_Cons
    by (intro appends_bind appends_case_prod appends_sync_step Cons.IH)
qed

lemma sync_step_failed:
  assumes "entry_ok E x" and "sync_item E uid x w = (Inl e, w')"
  shows "sync_step E uid x i s w = (Inr (i, s), w'\<lparr>trace := trace w' @ [entry_failed x e]\<rparr>)"
proof -
  from assms(1) have g: "js_get x ''project_name'' = Inr (js_opt_get x ''project_name'')"
    by (simp add: entry_ok_def js_get_defined)
  from assms(1) obtain n where n: "js_String E (js_opt_get x ''project_name'') = Inr n"
    using convertibleD by (auto simp add: entry_ok_def)
  from assms(2) g n show ?thesis
    by (simp add: sync_step_def entry_failed_def io_defs)
qed

lemma sync_step_succeeded:
  assumes "sync_item E uid x w = (Inr b, w')"
  shows "sync_step E uid x i s w = (Inr (if b then (i + 1, s) else (i, s + 1)), w')"
  using assms by (simp add: sync_step_def io_defs)

lemma sync_step_defined:
  assumes "entry_ok E x"
  shows "\<exists>st'. sync_step E uid x i s st =
           (Inr (case fst (sync_item E uid x st) of
                   Inl e \<Rightarrow> (i, s)
                 | Inr wasImported \<Rightarrow> if wasImported then (i + 1, s) else (i, s + 1)), st')"
proof (cases "sync_item E uid x st")
  case (Pair r st1)
  show ?thesis
  proof (cases r)
    case (Inl e)
    with Pair sync_step_failed [OF assms, of uid st e st1 i s] show ?thesis by simp
  next
    case (Inr b)
    with Pair sync_step_succeeded [of E uid x st b st1 i s] show ?thesis by simp
  qed
qed

lemma sync_loop_counts:
  assumes "\<forall>x\<in>set items. entry_ok E x"
  shows "fst (sync_loop E uid items i s st) =
           Inr (i + count_imported (item_results E uid items i s st),
                s + count_skipped (item_results E uid items i s st))
       \<and> length (item_results E uid items i s st) = length items"
  using assms
proof (induction items arbitrary: i s st)
  case Nil
  show ?case by (simp add: count_imported_def count_skipped_def)
next
  case (Cons x xs)
  then have nx: "entry_ok E x" and rest: "\<forall>x\<in>set xs. entry_ok E x" by simp_all
  from sync_step_defined [OF nx, of uid i s st] obtain st' where
    step: "sync_step E uid x i s st =
           (Inr (case fst (sync_item E uid x st) of
                   Inl e \<Rightarrow> (i, s)
                 | Inr wasImported \<Rightarrow> if wasImported then (i + 1, s) else (i, s + 1)), st')"
    by blast
  show ?case
  proof (cases "fst (sync_item E uid x st)")
    case (Inl e)
    with step Cons.IH [OF rest, of i s st'] show ?thesis
      by (simp add: count_imported_def count_skipped_def)
  next
    case (Inr b)
    show ?thesis
    proof (cases b)
      case True
      with Inr step Cons.IH [OF rest, of "i + 1" s st'] show ?thesis
        by (simp add: count_imported_def count_skipped_def)
    next
      case False
      with Inr step Cons.IH [OF rest, of i "s + 1" st'] show ?thesis
        by (simp add: count_imported_def count_skipped_def)
    qed
  qed
qed

lemma counts_add: "count_imported rs + count_skipped rs = count_succeeded rs"
proof (induction rs)
  case Nil
  show ?case by (simp add: count_imported_def count_skipped_def count_succeeded_def)
next
  case (Cons r rs)
  then show ?case
    by (cases r) (auto simp add: count_imported_def count_skipped_def count_succeeded_def)
qed

lemma sync_report_ok: "fst (sync_report i s st) = Inr ()"
  by (simp add: sync_report_def io_defs)

lemma failed_fetch_only_logged:
  assumes "entry_ok E x" and "js_get x ''id'' = Inr pid" and "fst (getProject E pid uid st) = Inl e"
  shows "list_all console_or_fetch (new_events st (snd (sync_step E uid x i s st)))"
proof -
  obtain st' where g: "getProject E pid uid st = (Inl e, st')"
    using assms(3) by (metis prod.collapse)
  from appendsD [OF appends_getProject g] obtain evs where
    evs: "trace st' = trace st @ evs" "list_all console_or_fetch evs" by blast
  have "sync_item E uid x st = (Inl e, st')"
    using assms(2) g by (simp add: sync_item_def io_defs)
  from sync_step_failed [OF assms(1) this]
  have "snd (sync_step E uid x i s st) = st'\<lparr>trace := trace st' @ [entry_failed x e]\<rparr>"
    by simp
  with evs have "new_events st (snd (sync_step E uid x i s st)) = evs @ [entry_failed x e]"
    by (simp add: new_events_def)
  with evs(2) show ?thesis by (simp add: entry_failed_def)
qed

section \<open>Sync orchestrator: nothing to sync\<close>

lemma getUserProjects_one_fetch:
  "getUserProjects E uid st = (Inr v, st') \<Longrightarrow>
     fetch_count st' = Suc (fetch_count st) \<and> local_headers st' = local_headers st"
  by (auto simp add: getUserProjects_def throw_api_error_def do_fetch_def io_defs split: sum.splits prod.splits if_splits)

lemma getCurrentUserId_state: "getCurrentUserId E st = (r, st') \<Longrightarrow> st' = st"
  by (auto simp add: getCurrentUserId_def io_defs split: sum.splits option.splits if_splits)

lemma console_or_fetch_quiet: "list_all console_or_fetch evs \<Longrightarrow> filter is_notification evs = []"
  by (induction evs) (auto elim: console_or_fetch.elims)

lemma console_or_fetch_allowed:
  "list_all console_or_fetch evs \<Longrightarrow> list_all (\<lambda>ev. console_or_fetch ev \<or> is_notification ev) evs"
  by (induction evs) auto

text \<open>
  Claim C7. When the list of the current user's cloud projects is empty, syncFromCloud
  adds to what the list call did one console line and one info notification
  ("No cloud projects to sync") and returns. The list request is the only request of the
  run, that notification is its only notification, the local headers are untouched, and
  apart from the notification the run only writes to the console: no project is fetched
  and none is imported.
\<close>

theorem sync_nothing_to_sync:
  assumes "getCurrentUserId E (st\<lparr>trace := trace st @ [Console LogInfo ''Starting cloud sync...'' []]\<rparr>) = (Inr uid, st1)"
      and "getUserProjects E uid st1 = (Inr (JArray []), st2)"
  shows "syncFromCloud E st =
           (Inr (), st2\<lparr>trace := trace st2 @ [Console LogInfo ''No cloud projects found'' [],
                          InfoNotification ''No cloud projects to sync'' []]\<rparr>)
       \<and> fetch_count (snd (syncFromCloud E st)) = Suc (fetch_count st)
       \<and> local_headers (snd (syncFromCloud E st)) = local_headers st
       \<and> filter is_notification (new_events st (snd (syncFromCloud E st))) =
           [InfoNotification ''No cloud projects to sync'' []]
       \<and> list_all (\<lambda>ev. console_or_fetch ev \<or> is_notification ev)
            (new_events st (snd (syncFromCloud E st)))"
proof -
  let ?tail = "[Console LogInfo ''No cloud projects found'' [],
                InfoNotification ''No cloud projects to sync'' []]"
  have run: "syncFromCloud E st = (Inr (), st2\<lparr>trace := trace st2 @ ?tail\<rparr>)"
    using assms by (simp add: syncFromCloud_def sync_try_def sync_projects_def io_defs)
  have st1: "st1 = st\<lparr>trace := trace st @ [Console LogInfo ''Starting cloud sync...'' []]\<rparr>"
    using getCurrentUserId_state [OF assms(1)] .
  from appendsD [OF appends_getUserProjects assms(2)] obtain evs where
    evs: "trace st2 = trace st1 @ evs" "list_all console_or_fetch evs" by blast
  have ne: "new_events st (snd (syncFromCloud E st)) =
      Console LogInfo ''Starting cloud sync...'' [] # evs @ ?tail"
    using run evs(1) st1 by (simp add: new_events_def)
  from getUserProjects_one_fetch [OF assms(2)] run st1
  have "fetch_count (snd (syncFromCloud E st)) = Suc (fetch_count st)"
    and "local_headers (snd (syncFromCloud E st)) = local_headers st"
    by simp_all
  with run ne console_or_fetch_quiet [OF evs(2)] console_or_fetch_allowed [OF evs(2)]
  show ?thesis by simp
qed

theorem sync_nothing_to_sync_witness:
  "syncFromCloud empty_env demo_world =
     (Inr (), demo_world\<lparr>fetch_count := 1, trace :=
        [Console LogInfo ''Starting cloud sync...'' [],
         Fetch \<lparr>url = ''http://localhost:3001/api/projects/user/test-user'', http_method = ''GET'',
               headers = json_headers, body = None\<rparr>,
         Console LogInfo ''Fetched {0} projects for user {1}'' [JNumber 0, JString ''test-user''],
         Console LogInfo ''No cloud projects found'' [],
         InfoNotification ''No cloud projects to sync'' []]\<rparr>)"
proof -
  let ?st1 = "demo_world\<lparr>trace := trace demo_world @ [Console LogInfo ''Starting cloud sync...'' []]\<rparr>"
  have h1: "getCurrentUserId empty_env ?st1 = (Inr ''test-user'', ?st1)"
    by (simp add: getCurrentUserId_def empty_env_def demo_env_def io_defs)
  have h2: "getUserProjects empty_env ''test-user'' ?st1 =
      (Inr (JArray []), ?st1\<lparr>fetch_count := 1, trace := trace ?st1 @
         [Fetch \<lparr>url = ''http://localhost:3001/api/projects/user/test-user'', http_method = ''GET'',
               headers = json_headers, body = None\<rparr>,
          Console LogInfo ''Fetched {0} projects for user {1}'' [JNumber 0, JString ''test-user'']]\<rparr>)"
    by (simp add: getUserProjects_def getUserProjects_request_def do_fetch_def empty_env_def
        demo_env_def demo_world_def io_defs)
  from sync_nothing_to_sync [OF h1 h2, THEN conjunct1]
  show ?thesis by (simp add: demo_world_def)
qed

section \<open>The run of the example\<close>

lemmas model_defs =
  syncFromCloud_def sync_try_def sync_projects_def sync_report_def sync_step_def sync_item_def
  getCurrentUserId_def getUserProjects_def getUserProjects_request_def getProject_def getProject_request_def
  throw_api_error_def do_fetch_def do_install_def json_headers_def
  importCloudProject_def import_body_def readFormat_def installProject_def make_installHeader_def
  js_opt_get_def js_or_def num_def CONFIG_NAME_def BLOCKS_PROJECT_NAME_def

lemma demo_fields:
  "fetch demo_env = (\<lambda>req n. case map_of demo_server (url req) of
                 None \<Rightarrow> Inl (ErrorInstance ''Failed to fetch'') | Some r \<Rightarrow> Inr r)"
  "localStorage_getItem demo_env = (\<lambda>k. Inr None)"
  "encodeURIComponent demo_env = (\<lambda>s. Inr s)"
  "numberToString demo_env = (\<lambda>r. if r = 1 then ''1'' else if r = 2 then ''2'' else if r = 3 then ''3'' else ''0'')"
  "JSON_parse demo_env = demo_parse"
  "installAsync demo_env = (\<lambda>h txt hs. Inr (hs @ [h]))"
  "appTarget_id demo_env = ''arcade''"
  "refreshWorkspace demo_env = None"
  by (simp_all add: demo_env_def)

lemma demo_user:
  "getCurrentUserId demo_env st = (Inr ''test-user'', st)"
  by (simp add: getCurrentUserId_def demo_fields io_defs)

lemma demo_list:
  "getUserProjects demo_env ''test-user''
     (demo_world\<lparr>trace := trace demo_world @ [Console LogInfo ''Starting cloud sync...'' []]\<rparr>) =
     (Inr (JArray demo_items),
      demo_world\<lparr>fetch_count := 1, trace :=
        [Console LogInfo ''Starting cloud sync...'' [],
         Fetch (getUserProjects_request ''http://localhost:3001'' ''test-user''),
         Console LogInfo ''Fetched {0} projects for user {1}'' [JNumber 3, JString ''test-user'']]\<rparr>)"
  by (simp add: getUserProjects_def getUserProjects_request_def do_fetch_def json_headers_def
      demo_fields demo_server_def demo_items_def demo_world_def io_defs)

lemma demo_results:
  "item_results demo_env ''test-user'' demo_items 0 0 demo_start =
     [Inr True, Inl (External (ErrorInstance ''Failed to fetch'')), Inl (Error unknown_format)]"
  by (simp add: model_defs io_defs demo_start_def demo_items_def demo_world_def demo_parsePayload
      demo_fields demo_server_def demo_parse_def)

lemma demo_run:
  "syncFromCloud demo_env demo_world =
     (Inr (), demo_world\<lparr>fetch_count := 4, local_headers := [foo_header],
        trace := trace demo_start @ demo_run_events\<rparr>)"
  by (simp add: model_defs io_defs demo_start_def demo_world_def demo_parsePayload
      demo_fields demo_server_def demo_parse_def demo_run_events_def foo_header_def)

lemma null_entry_fields:
  "fetch null_entry_env = (\<lambda>req n.
     if n = 0 then Inr \<lparr>ok = True, json = Inr (JArray
        [JNull, JObject [(''id'', JNumber 1), (''project_name'', JString ''Foo'')]])\<rparr>
     else fetch demo_env req n)"
  "localStorage_getItem null_entry_env = (\<lambda>k. Inr None)"
  "encodeURIComponent null_entry_env = (\<lambda>s. Inr s)"
  "numberToString null_entry_env = numberToString demo_env"
  by (simp_all add: null_entry_env_def demo_env_def)

lemma opaque_entry_fields:
  "fetch opaque_entry_env = (\<lambda>req n.
     if n = 0 then Inr \<lparr>ok = True, json = Inr (JArray
        [JObject [(''id'', JNumber 2), (''project_name'', opaque)],
         JObject [(''id'', JNumber 1), (''project_name'', JString ''Foo'')]])\<rparr>
     else fetch demo_env req n)"
  "localStorage_getItem opaque_entry_env = (\<lambda>k. Inr None)"
  "encodeURIComponent opaque_entry_env = (\<lambda>s. Inr s)"
  "numberToString opaque_entry_env = numberToString demo_env"
  by (simp_all add: opaque_entry_env_def demo_env_def)

lemma unreachable_fields:
  "fetch unreachable_env = (\<lambda>req n.
     if n = 0 then Inr \<lparr>ok = True, json = Inr (JArray demo_items)\<rparr>
     else Inl (ErrorInstance ''Failed to fetch''))"
  "localStorage_getItem unreachable_env = (\<lambda>k. Inr None)"
  "encodeURIComponent unreachable_env = (\<lambda>s. Inr s)"
  "numberToString unreachable_env = numberToString demo_env"
  by (simp_all add: unreachable_env_def demo_env_def)

lemma null_entry_run:
  "fst (syncFromCloud null_entry_env demo_world) = Inr ()
   \<and> map url (requests (trace (snd (syncFromCloud null_entry_env demo_world)))) =
       [''http://localhost:3001/api/projects/user/test-user'']
   \<and> filter is_notification (trace (snd (syncFromCloud null_entry_env demo_world))) =
       [ErrorNotification ''Cloud sync failed: {0}''
          [JString ''Cannot read properties of null (reading 'project_name')'']]"
  by (simp add: model_defs io_defs demo_world_def requests_def null_entry_fields demo_fields)

lemma opaque_entry_run:
  "fst (syncFromCloud opaque_entry_env demo_world) = Inr ()
   \<and> map url (requests (trace (snd (syncFromCloud opaque_entry_env demo_world)))) =
       [''http://localhost:3001/api/projects/user/test-user'',
        ''http://localhost:3001/api/projects/2?userId=test-user'']
   \<and> filter is_notification (trace (snd (syncFromCloud opaque_entry_env demo_world))) =
       [ErrorNotification ''Cloud sync failed: {0}'' [JString ''Cannot convert object to primitive value'']]"
  by (simp add: model_defs io_defs demo_world_def requests_def opaque_entry_fields demo_fields
      demo_server_def opaque_def cannot_convert_def)

section \<open>Sync orchestrator: partial failure\<close>

text \<open>
  Claim C2, as amended. For a non-empty list of project entries as their type declares
  them (none is \<^verbatim>\<open>null\<close>, each has a name that can be converted to a string), syncFromCloud
  processes every entry whatever fails on the way and completes; the imported and skipped
  counts it reports are the numbers of entries whose fetch and import returned true and
  false, so together the number of entries for which both succeeded. An entry whose fetch
  or import fails leaves both counts as they were and is logged by syncFromCloud with one
  console line that names the project and carries the error. While the entries are
  processed the only notifications are the error notifications of importCloudProject: an
  entry whose fetch fails writes to the console only, and an import that fails with an
  error that has a message, for a project whose name can be converted to a string, ends
  with its console entry and its error notification, which names the project.
\<close>

theorem sync_tolerates_item_failures:
  assumes "getCurrentUserId E (st\<lparr>trace := trace st @ [Console LogInfo ''Starting cloud sync...'' []]\<rparr>) = (Inr uid, st1)"
      and "getUserProjects E uid st1 = (Inr (JArray items), st2)"
      and "items \<noteq> []"
      and "\<forall>x\<in>set items. entry_ok E x"
  shows "let start = st2\<lparr>trace := trace st2 @ [found (length items)]\<rparr>;
             rs = item_results E uid items 0 0 start;
             st3 = snd (sync_loop E uid items 0 0 start)
         in length rs = length items
          \<and> fst (sync_loop E uid items 0 0 start) = Inr (count_imported rs, count_skipped rs)
          \<and> count_imported rs + count_skipped rs = count_succeeded rs
          \<and> syncFromCloud E st = sync_report (count_imported rs) (count_skipped rs) st3
          \<and> fst (syncFromCloud E st) = Inr ()
          \<and> list_all loop_event (new_events start st3)
          \<and> (\<forall>x\<in>set items. \<forall>w w' e i s. sync_item E uid x w = (Inl e, w')
                \<longrightarrow> sync_step E uid x i s w = (Inr (i, s), w'\<lparr>trace := trace w' @ [entry_failed x e]\<rparr>))
          \<and> (\<forall>x\<in>set items. \<forall>w pid e i s. js_get x ''id'' = Inr pid \<and> fst (getProject E pid uid w) = Inl e
                \<longrightarrow> list_all console_or_fetch (new_events w (snd (sync_step E uid x i s w))))
          \<and> (\<forall>cd w w' e n msg. js_String E (projectName cd) = Inr n
                \<and> import_body E cd (w\<lparr>trace := trace w @ [importing cd]\<rparr>) = (Inl e, w')
                \<and> error_message E e = Inr msg
                \<longrightarrow> importCloudProject E cd w = (Inl e, w'\<lparr>trace := trace w' @ import_failed cd e msg\<rparr>))"
proof -
  define start where "start = st2\<lparr>trace := trace st2 @ [found (length items)]\<rparr>"
  define rs where "rs = item_results E uid items 0 0 start"
  define st3 where "st3 = snd (sync_loop E uid items 0 0 start)"
  from sync_loop_counts [OF assms(4), of uid 0 0 start]
  have loop: "fst (sync_loop E uid items 0 0 start) = Inr (count_imported rs, count_skipped rs)"
    and len: "length rs = length items"
    by (simp_all add: rs_def)
  then have loop': "sync_loop E uid items 0 0 start = (Inr (count_imported rs, count_skipped rs), st3)"
    by (simp add: st3_def prod_eq_iff)
  have nz: "JNumber (of_nat (length items)) \<noteq> JNumber 0"
    using assms(3) by simp
  have run: "syncFromCloud E st = sync_report (count_imported rs) (count_skipped rs) st3"
    using assms(1,2) loop' nz sync_report_ok [of "count_imported rs" "count_skipped rs" st3]
    by (cases "sync_report (count_imported rs) (count_skipped rs) st3")
       (simp add: syncFromCloud_def sync_try_def sync_projects_def found_def num_def start_def io_defs)
  obtain evs where "trace st3 = trace start @ evs" "list_all loop_event evs"
    using appendsD [OF appends_sync_loop loop'] by blast
  then have quiet: "list_all loop_event (new_events start st3)"
    by (simp add: new_events_append)
  have logged: "\<forall>x\<in>set items. \<forall>w w' e i s. sync_item E uid x w = (Inl e, w')
                \<longrightarrow> sync_step E uid x i s w = (Inr (i, s), w'\<lparr>trace := trace w' @ [entry_failed x e]\<rparr>)"
    using assms(4) sync_step_failed by blast
  have fetches: "\<forall>x\<in>set items. \<forall>w pid e i s. js_get x ''id'' = Inr pid \<and> fst (getProject E pid uid w) = Inl e
                \<longrightarrow> list_all console_or_fetch (new_events w (snd (sync_step E uid x i s w)))"
    using assms(4) failed_fetch_only_logged by blast
  have notified: "\<forall>cd w w' e n msg. js_String E (projectName cd) = Inr n
                \<and> import_body E cd (w\<lparr>trace := trace w @ [importing cd]\<rparr>) = (Inl e, w')
                \<and> error_message E e = Inr msg
                \<longrightarrow> importCloudProject E cd w = (Inl e, w'\<lparr>trace := trace w' @ import_failed cd e msg\<rparr>)"
    using importCloudProject_caught by blast
  have ok: "fst (syncFromCloud E st) = Inr ()"
    using run sync_report_ok by simp
  show ?thesis
    unfolding Let_def start_def [symmetric] rs_def [symmetric] st3_def [symmetric]
    using len loop counts_add [of rs] run ok quiet logged fetches notified
    by (intro conjI)
qed

lemma demo_start_found:
  "demo_start =
     (demo_world\<lparr>fetch_count := 1, trace :=
        [Console LogInfo ''Starting cloud sync...'' [],
         Fetch (getUserProjects_request ''http://localhost:3001'' ''test-user''),
         Console LogInfo ''Fetched {0} projects for user {1}'' [JNumber 3, JString ''test-user'']]\<rparr>)
       \<lparr>trace := trace (demo_world\<lparr>fetch_count := 1, trace :=
        [Console LogInfo ''Starting cloud sync...'' [],
         Fetch (getUserProjects_request ''http://localhost:3001'' ''test-user''),
         Console LogInfo ''Fetched {0} projects for user {1}'' [JNumber 3, JString ''test-user'']]\<rparr>)
          @ [found (length demo_items)]\<rparr>"
  by (simp add: demo_start_def found_def num_def demo_items_def)

theorem sync_tolerates_item_failures_witness:
  "item_results demo_env ''test-user'' demo_items 0 0 demo_start =
     [Inr True, Inl (External (ErrorInstance ''Failed to fetch'')), Inl (Error unknown_format)]
   \<and> fst (sync_loop demo_env ''test-user'' demo_items 0 0 demo_start) = Inr (1, 0)
   \<and> fst (syncFromCloud demo_env demo_world) = Inr ()"
proof -
  have h3: "demo_items \<noteq> []" by (simp add: demo_items_def)
  have h4: "\<forall>x\<in>set demo_items. entry_ok demo_env x"
    by (simp add: demo_items_def entry_ok_def nullish_def convertible_def js_opt_get_def)
  note t = sync_tolerates_item_failures [OF demo_user demo_list h3 h4,
      unfolded demo_start_found [symmetric] Let_def]
  from t have a: "fst (sync_loop demo_env ''test-user'' demo_items 0 0 demo_start) =
      Inr (count_imported (item_results demo_env ''test-user'' demo_items 0 0 demo_start),
           count_skipped (item_results demo_env ''test-user'' demo_items 0 0 demo_start))"
    by blast
  from t have b: "fst (syncFromCloud demo_env demo_world) = Inr ()"
    by blast
  from a b show ?thesis
    by (simp add: demo_results count_imported_def count_skipped_def)
qed

text \<open>
  Claim C2 as stated fails in three ways. In the example run the third project's import
  fails and the user is notified of it by name: the failure is surfaced individually. When
  the first of two list entries is \<^verbatim>\<open>null\<close>, and when the first of two entries cannot be
  fetched and has a name that cannot be converted to a string, the inner \<^verbatim>\<open>catch\<close> itself
  fails: the loop stops, the second entry is never fetched, no counts are reported, and
  the run ends with the error notification of the outer \<^verbatim>\<open>catch\<close>.
\<close>

theorem sync_import_failure_notified_counterexample:
  "fst (syncFromCloud demo_env demo_world) = Inr ()
   \<and> filter is_notification (trace (snd (syncFromCloud demo_env demo_world))) =
       [ErrorNotification ''Failed to import '{0}': {1}'' [JString ''Baz'', JString unknown_format],
        InfoNotification ''Synced {0} project(s) from cloud'' [JNumber 1]]
   \<and> fst (syncFromCloud null_entry_env demo_world) = Inr ()
   \<and> map url (requests (trace (snd (syncFromCloud null_entry_env demo_world)))) =
       [''http://localhost:3001/api/projects/user/test-user'']
   \<and> filter is_notification (trace (snd (syncFromCloud null_entry_env demo_world))) =
       [ErrorNotification ''Cloud sync failed: {0}''
          [JString ''Cannot read properties of null (reading 'project_name')'']]
   \<and> fst (syncFromCloud opaque_entry_env demo_world) = Inr ()
   \<and> map url (requests (trace (snd (syncFromCloud opaque_entry_env demo_world)))) =
       [''http://localhost:3001/api/projects/user/test-user'',
        ''http://localhost:3001/api/projects/2?userId=test-user'']
   \<and> filter is_notification (trace (snd (syncFromCloud opaque_entry_env demo_world))) =
       [ErrorNotification ''Cloud sync failed: {0}'' [JString ''Cannot convert object to primitive value'']]"
  using null_entry_run opaque_entry_run
  by (simp add: demo_run demo_start_def demo_run_events_def)

section \<open>Sync orchestrator: the notification of a run\<close>

lemma loop_not_aggregate: "loop_event ev \<Longrightarrow> \<not> is_aggregate ev"
  by (cases ev) auto

lemma loop_events_quiet: "list_all loop_event evs \<Longrightarrow> filter is_aggregate evs = []"
  by (induction evs) (auto dest: loop_not_aggregate)

lemma console_or_fetch_not_aggregate: "list_all console_or_fetch evs \<Longrightarrow> filter is_aggregate evs = []"
  by (induction evs) (auto elim: console_or_fetch.elims)

lemma sync_report_events:
  "sync_report i s st =
     (Inr (), st\<lparr>trace := trace st @
        Console LogInfo ''Cloud sync complete! Imported: {0}, Skipped: {1}'' [num i, num s] #
        (if i > 0 then [InfoNotification ''Synced {0} project(s) from cloud'' [num i]]
         else if s > 0 then [InfoNotification ''All {0} cloud project(s) already exist locally'' [num s]]
         else [])\<rparr>)"
  by (simp add: sync_report_def io_defs)

lemma reports_bind:
  assumes "appends loop_event m" and "\<And>v. reports (f v)"
  shows "reports (bind m f)"
  unfolding reports_def
proof
  fix st
  obtain r st1 where m: "m st = (r, st1)" by (cases "m st")
  from appendsD [OF assms(1) m] obtain evs1 where
    e1: "trace st1 = trace st @ evs1" "list_all loop_event evs1" by blast
  note q1 = loop_events_quiet [OF e1(2)]
  show "\<exists>evs. trace (snd (bind m f st)) = trace st @ evs
          \<and> (case fst (bind m f st) of
               Inl e \<Rightarrow> filter is_aggregate evs = []
             | Inr v \<Rightarrow> (\<exists>ev. filter is_aggregate evs = [ev])
                      \<or> (filter is_aggregate evs = [] \<and> all_failed_summary \<in> set evs))"
  proof (cases r)
    case (Inl e)
    with m e1 q1 show ?thesis by (auto simp add: bind_def)
  next
    case (Inr v)
    from assms(2) [of v] obtain evs2 where e2:
      "trace (snd (f v st1)) = trace st1 @ evs2"
      "case fst (f v st1) of
         Inl e \<Rightarrow> filter is_aggregate evs2 = []
       | Inr v \<Rightarrow> (\<exists>ev. filter is_aggregate evs2 = [ev])
                \<or> (filter is_aggregate evs2 = [] \<and> all_failed_summary \<in> set evs2)"
      unfolding reports_def by blast
    have b: "bind m f st = f v st1" using m Inr by (simp add: bind_def)
    have "trace (snd (f v st1)) = trace st @ (evs1 @ evs2)" using e1 e2 by simp
    moreover have "case fst (f v st1) of
         Inl e \<Rightarrow> filter is_aggregate (evs1 @ evs2) = []
       | Inr v \<Rightarrow> (\<exists>ev. filter is_aggregate (evs1 @ evs2) = [ev])
                \<or> (filter is_aggregate (evs1 @ evs2) = [] \<and> all_failed_summary \<in> set (evs1 @ evs2))"
      using q1 e2(2) by (cases "fst (f v st1)") auto
    ultimately show ?thesis unfolding b by blast
  qed
qed

lemma reports_if: "reports a \<Longrightarrow> reports b \<Longrightarrow> reports (if c then a else b)"
  by simp

lemma reports_case_prod: "(\<And>a b. reports (f a b)) \<Longrightarrow> reports (case_prod f p)"
  by (cases p) simp

lemma reports_sync_report: "reports (sync_report i s)"
  unfolding reports_def
proof
  fix st
  show "\<exists>evs. trace (snd (sync_report i s st)) = trace st @ evs
          \<and> (case fst (sync_report i s st) of
               Inl e \<Rightarrow> filter is_aggregate evs = []
             | Inr v \<Rightarrow> (\<exists>ev. filter is_aggregate evs = [ev])
                      \<or> (filter is_aggregate evs = [] \<and> all_failed_summary \<in> set evs))"
    by (cases "i > 0"; cases "s > 0")
       (simp_all add: sync_report_events all_failed_summary_def)
qed

lemma reports_nothing_to_sync:
  "reports (bind (emit (Console LogInfo ''No cloud projects found'' [])) (\<lambda>_.
            emit (InfoNotification ''No cloud projects to sync'' [])))"
  unfolding reports_def by (simp add: io_defs)

lemma reports_sync_projects: "reports (sync_projects E uid cloudProjects)"
  unfolding sync_projects_def
  by (intro reports_bind reports_if reports_case_prod reports_sync_report reports_nothing_to_sync
        appends_intros appends_sync_loop) simp_all

lemma reports_sync_try: "reports (sync_try E)"
  unfolding sync_try_def
  by (intro reports_bind reports_sync_projects appends_getCurrentUserId
        appends_mono [OF appends_getUserProjects])
     (auto elim: console_or_fetch.elims)

lemma sync_notifications:
  "(fst (syncFromCloud E st) = Inr () \<longrightarrow>
      (\<exists>ev. filter is_aggregate (new_events st (snd (syncFromCloud E st))) = [ev])
      \<or> (filter is_aggregate (new_events st (snd (syncFromCloud E st))) = []
         \<and> all_failed_summary \<in> set (new_events st (snd (syncFromCloud E st)))))
 \<and> (fst (syncFromCloud E st) \<noteq> Inr () \<longrightarrow>
      filter is_aggregate (new_events st (snd (syncFromCloud E st))) = [])"
proof -
  let ?begin = "Console LogInfo ''Starting cloud sync...'' []"
  let ?st1 = "st\<lparr>trace := trace st @ [?begin]\<rparr>"
  obtain r st' where run: "sync_try E ?st1 = (r, st')" by (cases "sync_try E ?st1")
  from reports_sync_try [of E, unfolded reports_def, rule_format, of ?st1]
  obtain evs where evs:
    "trace st' = trace ?st1 @ evs"
    "case r of
       Inl e \<Rightarrow> filter is_aggregate evs = []
     | Inr v \<Rightarrow> (\<exists>ev. filter is_aggregate evs = [ev])
              \<or> (filter is_aggregate evs = [] \<and> all_failed_summary \<in> set evs)"
    unfolding run fst_conv snd_conv by blast
  show ?thesis
  proof (cases r)
    case (Inr v)
    have "syncFromCloud E st = (Inr (), st')"
      using run Inr by (simp add: syncFromCloud_def io_defs)
    moreover from this evs(1) have "new_events st (snd (syncFromCloud E st)) = ?begin # evs"
      by (simp add: new_events_def)
    ultimately show ?thesis using evs(2) Inr by auto
  next
    case (Inl e)
    show ?thesis
    proof (cases "error_message E e")
      case (Inr msg)
      have "syncFromCloud E st = (Inr (), st'\<lparr>trace := trace st' @ sync_failed e msg\<rparr>)"
        using run Inl Inr by (simp add: syncFromCloud_def sync_failed_def io_defs)
      moreover from this evs(1)
      have "new_events st (snd (syncFromCloud E st)) = ?begin # evs @ sync_failed e msg"
        by (simp add: new_events_def)
      ultimately show ?thesis using evs(2) Inl by (simp add: sync_failed_def)
    next
      case t: (Inl t)
      have "syncFromCloud E st = (Inl t, st')"
        using run Inl t by (simp add: syncFromCloud_def io_defs)
      moreover from this evs(1) have "new_events st (snd (syncFromCloud E st)) = ?begin # evs"
        by (simp add: new_events_def)
      ultimately show ?thesis using evs(2) Inl by simp
    qed
  qed
qed

lemma sync_counts_notification:
  assumes "getCurrentUserId E (st\<lparr>trace := trace st @ [Console LogInfo ''Starting cloud sync...'' []]\<rparr>) = (Inr uid, st1)"
      and "getUserProjects E uid st1 = (Inr (JArray items), st2)"
      and "items \<noteq> []"
      and "sync_loop E uid items 0 0 (st2\<lparr>trace := trace st2 @ [found (length items)]\<rparr>) = (Inr (i, s), st3)"
  shows "fst (syncFromCloud E st) = Inr ()
       \<and> filter is_aggregate (new_events st (snd (syncFromCloud E st))) =
           (if i > 0 then [InfoNotification ''Synced {0} project(s) from cloud'' [num i]]
            else if s > 0 then [InfoNotification ''All {0} cloud project(s) already exist locally'' [num s]]
            else [])"
proof -
  let ?begin = "Console LogInfo ''Starting cloud sync...'' []"
  let ?summary = "Console LogInfo ''Cloud sync complete! Imported: {0}, Skipped: {1}'' [num i, num s]"
  let ?note = "if i > 0 then [InfoNotification ''Synced {0} project(s) from cloud'' [num i]]
         else if s > 0 then [InfoNotification ''All {0} cloud project(s) already exist locally'' [num s]]
         else []"
  have st1: "st1 = st\<lparr>trace := trace st @ [?begin]\<rparr>"
    using getCurrentUserId_state [OF assms(1)] .
  from appendsD [OF appends_getUserProjects assms(2)] obtain evs1 where
    evs1: "trace st2 = trace st1 @ evs1" "list_all console_or_fetch evs1" by blast
  from appendsD [OF appends_sync_loop assms(4)] obtain evs2 where
    evs2: "trace st3 = trace st2 @ found (length items) # evs2" "list_all loop_event evs2" by auto
  have nz: "JNumber (of_nat (length items)) \<noteq> JNumber 0"
    using assms(3) by simp
  have run: "syncFromCloud E st = sync_report i s st3"
    using assms(1,2,4) nz sync_report_events [of i s st3]
    by (simp add: syncFromCloud_def sync_try_def sync_projects_def found_def num_def io_defs)
  then have fin: "syncFromCloud E st = (Inr (), st3\<lparr>trace := trace st3 @ ?summary # ?note\<rparr>)"
    by (simp only: sync_report_events)
  have "trace (snd (syncFromCloud E st)) =
          trace st @ ?begin # evs1 @ found (length items) # evs2 @ ?summary # ?note"
    unfolding fin using evs1(1) evs2(1) st1 by simp
  then have "new_events st (snd (syncFromCloud E st)) =
          ?begin # evs1 @ found (length items) # evs2 @ ?summary # ?note"
    by (rule new_events_append)
  then have "filter is_aggregate (new_events st (snd (syncFromCloud E st))) = filter is_aggregate ?note"
    using console_or_fetch_not_aggregate [OF evs1(2)] loop_events_quiet [OF evs2(2)]
    by (simp add: found_def)
  moreover have "filter is_aggregate ?note = ?note" by simp
  ultimately show ?thesis using fin by simp
qed

text \<open>
  Claim C5, against the code. A run of syncFromCloud that returns has issued exactly one
  notification of its own, unless its summary line reports 0 imported and 0 skipped: then
  it has issued none. (A run that fails has issued none either.) In particular, a run over
  a non-empty list whose loop completes with the counts \<open>i\<close> and \<open>s\<close> returns, and its own
  notifications are: the info notification with the imported count when \<open>i\<close> is positive;
  otherwise the info notification with the skipped count when \<open>s\<close> is positive; and none
  at all when both counts are 0, which is the run in which every listed project failed.
\<close>

theorem sync_aggregate_notification:
  "(fst (syncFromCloud E st) = Inr () \<longrightarrow>
      (\<exists>ev. filter is_aggregate (new_events st (snd (syncFromCloud E st))) = [ev])
      \<or> (filter is_aggregate (new_events st (snd (syncFromCloud E st))) = []
         \<and> all_failed_summary \<in> set (new_events st (snd (syncFromCloud E st)))))
 \<and> (fst (syncFromCloud E st) \<noteq> Inr () \<longrightarrow>
      filter is_aggregate (new_events st (snd (syncFromCloud E st))) = [])
 \<and> (\<forall>uid st1 st2 items i s st3.
      getCurrentUserId E (st\<lparr>trace := trace st @ [Console LogInfo ''Starting cloud sync...'' []]\<rparr>) = (Inr uid, st1)
      \<and> getUserProjects E uid st1 = (Inr (JArray items), st2)
      \<and> items \<noteq> []
      \<and> sync_loop E uid items 0 0 (st2\<lparr>trace := trace st2 @ [found (length items)]\<rparr>) = (Inr (i, s), st3)
      \<longrightarrow> fst (syncFromCloud E st) = Inr ()
        \<and> filter is_aggregate (new_events st (snd (syncFromCloud E st))) =
           (if i > 0 then [InfoNotification ''Synced {0} project(s) from cloud'' [num i]]
            else if s > 0 then [InfoNotification ''All {0} cloud project(s) already exist locally'' [num s]]
            else []))"
  using sync_notifications [of E st] sync_counts_notification [of E st] by blast

lemma unreachable_user:
  "getCurrentUserId unreachable_env st = (Inr ''test-user'', st)"
  by (simp add: getCurrentUserId_def unreachable_fields io_defs)

lemma unreachable_list:
  "getUserProjects unreachable_env ''test-user''
     (demo_world\<lparr>trace := trace demo_world @ [Console LogInfo ''Starting cloud sync...'' []]\<rparr>) =
     (Inr (JArray demo_items),
      demo_world\<lparr>fetch_count := 1, trace :=
        [Console LogInfo ''Starting cloud sync...'' [],
         Fetch (getUserProjects_request ''http://localhost:3001'' ''test-user''),
         Console LogInfo ''Fetched {0} projects for user {1}'' [JNumber 3, JString ''test-user'']]\<rparr>)"
  by (simp add: getUserProjects_def getUserProjects_request_def do_fetch_def json_headers_def
      unreachable_fields demo_fields demo_items_def demo_world_def io_defs)

lemma unreachable_loop:
  "fst (sync_loop unreachable_env ''test-user'' demo_items 0 0 demo_start) = Inr (0, 0)"
  by (simp add: model_defs io_defs demo_start_def demo_items_def demo_world_def
      unreachable_fields demo_fields)

lemma unreachable_run:
  "filter is_notification (new_events demo_world (snd (syncFromCloud unreachable_env demo_world))) = []
   \<and> all_failed_summary \<in> set (new_events demo_world (snd (syncFromCloud unreachable_env demo_world)))"
  by (simp add: model_defs io_defs demo_items_def demo_world_def new_events_def all_failed_summary_def
      unreachable_fields demo_fields)

theorem sync_aggregate_notification_witness:
  "fst (syncFromCloud unreachable_env demo_world) = Inr ()
   \<and> filter is_aggregate (new_events demo_world (snd (syncFromCloud unreachable_env demo_world))) = []
   \<and> filter is_notification (new_events demo_world (snd (syncFromCloud unreachable_env demo_world))) = []
   \<and> all_failed_summary \<in> set (new_events demo_world (snd (syncFromCloud unreachable_env demo_world)))"
proof -
  have h3: "demo_items \<noteq> []" by (simp add: demo_items_def)
  have h4: "sync_loop unreachable_env ''test-user'' demo_items 0 0 demo_start =
      (Inr (0, 0), snd (sync_loop unreachable_env ''test-user'' demo_items 0 0 demo_start))"
    using unreachable_loop by (simp add: prod_eq_iff)
  from sync_aggregate_notification [of unreachable_env demo_world, THEN conjunct2, THEN conjunct2,
      rule_format, OF conjI [OF unreachable_user conjI [OF unreachable_list
        conjI [OF h3 h4 [unfolded demo_start_found]]]]]
    unreachable_run
  show ?thesis by simp
qed


end
